theory Spec2Isabelle
  imports Main "HOL-Library.Word" "HOL-Library.AList"
begin

section \<open>The Tencent translator adapter (tencent.js)\<close>

text \<open>
  A shallow embedding of \<^verbatim>\<open>src/background/library/translators/tencent.js\<close>.
  The adapter is glue code around four external collaborators (the HTTP client, the
  browser's tab and cookie APIs and an audio element). Each collaborator is modelled
  as a script of the answers it is going to give, consumed call by call; every call
  the adapter makes is appended to a trace. A promise that is never settled (a callback
  the browser never invokes) is the outcome \<open>Pending\<close>.
\<close>

subsection \<open>Strings\<close>

text \<open>
  A JavaScript string is a sequence of UTF-16 code units. \<open>js\<close> embeds an ASCII
  literal of the source.
\<close>

type_synonym jsstring = "16 word list"

definition js :: "string \<Rightarrow> jsstring" where
  "js s = map of_char s"

text \<open>
  The characters matched by \<^verbatim>\<open>\s\<close> in a regular expression without the unicode
  flag: WhiteSpace and LineTerminator of ECMAScript (TAB, LF, VT, FF, CR, SP, NBSP,
  the Unicode space separators, LS, PS and ZWNBSP).
\<close>

definition is_space :: "16 word \<Rightarrow> bool" where
  "is_space c \<longleftrightarrow>
     c \<in> {0x09, 0x0A, 0x0B, 0x0C, 0x0D, 0x20, 0xA0, 0x1680, 0x2028, 0x2029, 0x202F, 0x205F,
          0x3000, 0xFEFF}
     \<or> (0x2000 \<le> c \<and> c \<le> 0x200A)"

definition slash :: "16 word" where
  "slash = 0x2F"

text \<open>Decimal rendering of a number, as string concatenation with \<^verbatim>\<open>+\<close> does for integers.\<close>

fun dec_nat :: "nat \<Rightarrow> jsstring" where
  "dec_nat n = (if n < 10 then [of_nat (48 + n)] else dec_nat (n div 10) @ [of_nat (48 + n mod 10)])"

definition dec_int :: "int \<Rightarrow> jsstring" where
  "dec_int i = (if i < 0 then js ''-'' @ dec_nat (nat (- i)) else dec_nat (nat i))"

text \<open>
  String conversion of a value that may be \<^verbatim>\<open>undefined\<close>, as template literals and
  \<^verbatim>\<open>URLSearchParams\<close> perform it.
\<close>

definition to_string :: "jsstring option \<Rightarrow> jsstring" where
  "to_string v = (case v of None \<Rightarrow> js ''undefined'' | Some s \<Rightarrow> s)"

text \<open>
  \<^verbatim>\<open>new URLSearchParams(init)\<close> takes the names and the values of \<open>init\<close> as scalar value
  strings: a surrogate code unit that is not part of a pair (a leading one followed by a
  trailing one) becomes U+FFFD.
\<close>

definition is_leading :: "16 word \<Rightarrow> bool" where
  "is_leading c \<longleftrightarrow> 0xD800 \<le> c \<and> c \<le> 0xDBFF"

definition is_trailing :: "16 word \<Rightarrow> bool" where
  "is_trailing c \<longleftrightarrow> 0xDC00 \<le> c \<and> c \<le> 0xDFFF"

fun USVString :: "jsstring \<Rightarrow> jsstring" where
  "USVString [] = []"
| "USVString [c] = (if is_leading c \<or> is_trailing c then [0xFFFD] else [c])"
| "USVString (c # d # cs) =
     (if is_leading c
      then (if is_trailing d then c # d # USVString cs else 0xFFFD # USVString (d # cs))
      else if is_trailing c then 0xFFFD # USVString (d # cs)
      else c # USVString (d # cs))"

definition URLSearchParams :: "(jsstring \<times> jsstring) list \<Rightarrow> (jsstring \<times> jsstring) list" where
  "URLSearchParams init = map (\<lambda>(name, v). (USVString name, USVString v)) init"

subsection \<open>The language table\<close>

definition LANGUAGES :: "(jsstring \<times> jsstring) list" where
  "LANGUAGES =
    [(js ''auto'', js ''auto''),
     (js ''zh-CN'', js ''zh''),
     (js ''en'', js ''en''),
     (js ''ja'', js ''jp''),
     (js ''ko'', js ''kr''),
     (js ''fr'', js ''fr''),
     (js ''es'', js ''es''),
     (js ''it'', js ''it''),
     (js ''de'', js ''de''),
     (js ''tr'', js ''tr''),
     (js ''ru'', js ''ru''),
     (js ''pt'', js ''pt''),
     (js ''vi'', js ''vi''),
     (js ''id'', js ''id''),
     (js ''th'', js ''th''),
     (js ''ms'', js ''ms''),
     (js ''ar'', js ''ar''),
     (js ''hi'', js ''hi'')]"

text \<open>
  \<^verbatim>\<open>new Map(entries)\<close> sets the entries one after the other: a key that is already
  there keeps its place and takes the new value, a new key goes to the end.
  \<^verbatim>\<open>Map.get\<close> gives \<^verbatim>\<open>undefined\<close> (\<open>None\<close>) for a key that is not there.
\<close>

type_synonym ('k, 'v) js_map = "('k \<times> 'v) list"

definition Map_new :: "('k \<times> 'v) list \<Rightarrow> ('k, 'v) js_map" where
  "Map_new entries = foldl (\<lambda>m (k, v). AList.update k v m) [] entries"

definition Map_get :: "('k, 'v) js_map \<Rightarrow> 'k \<Rightarrow> 'v option" where
  "Map_get m k = map_of m k"

definition Map_keys :: "('k, 'v) js_map \<Rightarrow> 'k list" where
  "Map_keys m = map fst m"

definition MAX_RETRY :: nat where
  "MAX_RETRY = 1"

definition BASE_URL :: jsstring where
  "BASE_URL = js ''https://fanyi.qq.com''"

definition LAN_TO_CODE :: "(jsstring, jsstring) js_map" where
  "LAN_TO_CODE = Map_new LANGUAGES"

definition CODE_TO_LAN :: "(jsstring, jsstring) js_map" where
  "CODE_TO_LAN = Map_new (map (\<lambda>(lan, code). (code, lan)) LANGUAGES)"

definition supportedLanguages :: "jsstring set" where
  "supportedLanguages = set (Map_keys LAN_TO_CODE)"

subsection \<open>Provider responses\<close>

text \<open>
  The provider answers with JSON. The model takes a response at the schema the adapter
  reads it with: a field is either absent (\<open>None\<close>: \<^verbatim>\<open>undefined\<close> or \<^verbatim>\<open>null\<close>, which
  the adapter's checks do not tell apart) or holds a value of the type the code uses it
  at. An object that is present is truthy, a string is truthy when it is not empty.
\<close>

record text_pair =
  sourceText :: "jsstring option"
  targetText :: "jsstring option"

record translate_obj =
  source :: "jsstring option"
  records :: "text_pair list option"

record suggest_entry =
  prx_ph_AmE :: "jsstring option"
  examples_json :: "jsstring option"

record suggest_obj =
  suggest_data :: "suggest_entry list option"

record abstract_item =
  ps :: "jsstring option"
  explanation :: "jsstring list option"

record dict_obj =
  abstract :: "abstract_item list option"

record response_data =
  data_dict :: "dict_obj option"
  data_translate :: "translate_obj option"
  data_suggest :: "suggest_obj option"

record response =
  status :: int
  data :: response_data

text \<open>The document that \<^verbatim>\<open>JSON.parse\<close> makes of the \<^verbatim>\<open>examples_json\<close> string.\<close>

record examples_doc =
  basic :: "text_pair list option"

subsection \<open>Translation results\<close>

record example =
  ex_source :: "jsstring option"
  ex_target :: "jsstring option"

record detailed_meaning =
  pos :: "jsstring option"
  meaning :: jsstring

text \<open>
  The result object starts empty (\<^verbatim>\<open>let result = {}\<close>) and gets its properties by
  assignment: \<open>None\<close> is a property that was never assigned (or assigned \<^verbatim>\<open>undefined\<close>).
\<close>

record result =
  originalText :: "jsstring option"
  mainMeaning :: "jsstring option"
  sPronunciation :: "jsstring option"
  examples :: "example list option"
  detailedMeanings :: "detailed_meaning list option"

definition empty_result :: result where
  "empty_result =
     \<lparr>originalText = None, mainMeaning = None, sPronunciation = None, examples = None,
      detailedMeanings = None\<rparr>"

subsection \<open>Exceptions, rejections and promises\<close>

datatype js_exception = TypeError | SyntaxError | URIError

text \<open>
  What a promise is rejected with: a string (\<^verbatim>\<open>reject("...")\<close>), nothing
  (\<^verbatim>\<open>reject()\<close>), an exception of the runtime, a failure of the HTTP client or of the
  audio element, or the adapter's structured error object.
\<close>

datatype thrown =
    Message jsstring
  | Undefined
  | Exception js_exception
  | HttpFailure jsstring
  | PlaybackError jsstring
  | ApiError (errorType: jsstring) (errorCode: int) (errorMsg: jsstring)
      (errorObj: "response + thrown")

datatype 'a promise = Resolved 'a | Rejected thrown | Pending

subsection \<open>The adapter's state and its collaborators\<close>

datatype tab_status = Unloaded | Loading | Complete

record cookie =
  cookie_name :: jsstring
  cookie_value :: jsstring

record request =
  http_method :: jsstring
  baseURL :: jsstring
  url :: jsstring
  headers :: "(jsstring \<times> jsstring) list"
  params :: "(jsstring \<times> jsstring) list"

datatype event =
    Request request
  | TabsCreate jsstring bool
  | AddListener
  | TabsRemove nat
  | Log jsstring
  | RemoveListener
  | CookiesGetAll jsstring
  | CookiesGet jsstring jsstring
  | AudioPause
  | AudioSetSrc jsstring
  | AudioPlay

text \<open>
  What the browser delivers while the adapter waits for a tab: a \<^verbatim>\<open>tabs.onUpdated\<close> event
  (tab id and \<^verbatim>\<open>tab.status\<close>), or the callback of a \<^verbatim>\<open>chrome.tabs.remove\<close> call, with the
  number of the call (0 for the first one the adapter made for the tab) and the message of
  \<^verbatim>\<open>chrome.runtime.lastError\<close>, if any. A visit of the provider's page is the answer to
  \<^verbatim>\<open>chrome.tabs.create\<close> (\<open>Inl\<close> the message of \<^verbatim>\<open>lastError\<close>, \<open>Inr\<close> the tab's id) and
  what is delivered after it, in the order of delivery: the order of the events and the
  callbacks is the browser's.
\<close>

datatype tab_delivery = Updated nat tab_status | Removed nat "jsstring option"

record visit =
  created :: "jsstring + nat"
  deliveries :: "tab_delivery list"

text \<open>
  \<open>qtk\<close>, \<open>qtv\<close> and the audio element are the adapter's own fields. The scripts hold
  what the collaborators are going to answer, in the order of the calls: the HTTP
  client's outcomes, the visits of the provider's page, \<^verbatim>\<open>chrome.cookies.getAll\<close>,
  \<^verbatim>\<open>chrome.cookies.get\<close> and \<^verbatim>\<open>AUDIO.play()\<close> (the rejection, if any, and the element's
  \<^verbatim>\<open>paused\<close> flag afterwards). An empty script is a callback that is never invoked.
  \<open>clock\<close> is what \<^verbatim>\<open>new Date().getTime()\<close> reads at its n-th call. \<open>trace\<close> holds the
  calls that the adapter makes until the promise of an operation is settled, in their
  order; \<open>background\<close> holds the calls of callbacks that run after the promise they
  belong to is settled: when these happen among the later calls is up to the browser.
\<close>

record world =
  qtk :: jsstring
  qtv :: jsstring
  audio_paused :: bool
  audio_src :: jsstring
  axios_script :: "(thrown + response) list"
  tabs_script :: "visit list"
  cookies_getAll_script :: "cookie list list"
  cookies_get_script :: "cookie option list"
  audio_play_script :: "(thrown option \<times> bool) list"
  clock :: "nat \<Rightarrow> int"
  clock_reads :: nat
  trace :: "event list"
  background :: "event list"

definition emit :: "event \<Rightarrow> world \<Rightarrow> world" where
  "emit e w = w\<lparr>trace := trace w @ [e]\<rparr>"

definition getTime :: "world \<Rightarrow> int \<times> world" where
  "getTime w = (clock w (clock_reads w), w\<lparr>clock_reads := Suc (clock_reads w)\<rparr>)"

definition HEADERS :: "(jsstring \<times> jsstring) list" where
  "HEADERS = []"

text \<open>
  The HTTP client (\<^verbatim>\<open>../axios.js\<close>): the request is sent, and the promise takes the
  next outcome of the script.
\<close>

definition axios :: "request \<Rightarrow> world \<Rightarrow> response promise \<times> world" where
  "axios req w =
     (let w1 = emit (Request req) w in
      case axios_script w1 of
        [] \<Rightarrow> (Pending, w1)
      | Inl e # rest \<Rightarrow> (Rejected e, w1\<lparr>axios_script := rest\<rparr>)
      | Inr response # rest \<Rightarrow> (Resolved response, w1\<lparr>axios_script := rest\<rparr>))"

subsection \<open>requestHomePage and updateTokens\<close>

text \<open>
  The listener \<^verbatim>\<open>tabUpdateListener\<close> returns at once on an event of another tab or
  with \<^verbatim>\<open>tab.status === "loading"\<close>. On every other event it calls
  \<^verbatim>\<open>chrome.tabs.remove\<close>, and it stays registered until the callback of one of these
  calls runs. \<open>tab_wait\<close> runs the listener over what the browser delivers: \<open>calls\<close> are
  the \<^verbatim>\<open>tab.status\<close> values of the events for which \<^verbatim>\<open>chrome.tabs.remove\<close> has been
  called so far, each kept by the callback of its call. The result is the calls made and,
  when a callback runs, its number, the status it keeps, the message of \<^verbatim>\<open>lastError\<close>
  and what is delivered later. A callback of a call that was never made does not exist:
  such a delivery is passed over.
\<close>

fun tab_wait ::
  "nat \<Rightarrow> tab_status list \<Rightarrow> tab_delivery list
     \<Rightarrow> tab_status list \<times> (nat \<times> tab_status \<times> jsstring option \<times> tab_delivery list) option" where
  "tab_wait tabId calls [] = (calls, None)"
| "tab_wait tabId calls (Updated id' st # ds) =
     (if id' \<noteq> tabId \<or> st = Loading then tab_wait tabId calls ds
      else tab_wait tabId (calls @ [st]) ds)"
| "tab_wait tabId calls (Removed n lastError # ds) =
     (if n < length calls then (calls, Some (n, calls ! n, lastError, ds))
      else tab_wait tabId calls ds)"

text \<open>
  The first callback that runs removes the listener and settles the promise. The
  callbacks of the other \<^verbatim>\<open>chrome.tabs.remove\<close> calls run later, each once: they log the
  message of \<^verbatim>\<open>lastError\<close>, remove the listener again and settle a promise that is
  settled already. \<open>late_callbacks k done ds\<close> are their calls, for \<open>k\<close> calls made, of which
  the callbacks \<open>done\<close> have run.
\<close>

fun late_callbacks :: "nat \<Rightarrow> nat list \<Rightarrow> tab_delivery list \<Rightarrow> event list" where
  "late_callbacks k done [] = []"
| "late_callbacks k done (Updated id' st # ds) = late_callbacks k done ds"
| "late_callbacks k done (Removed n lastError # ds) =
     (if n < k \<and> n \<notin> set done
      then (case lastError of None \<Rightarrow> [] | Some message \<Rightarrow> [Log message])
             @ [RemoveListener] @ late_callbacks k (n # done) ds
      else late_callbacks k done ds)"

definition requestHomePage :: "world \<Rightarrow> unit promise \<times> world" where
  "requestHomePage w =
     (let w1 = emit (TabsCreate BASE_URL False) w in
      (case tabs_script w1 of
        [] \<Rightarrow> (Pending, w1)
      | visit # visits \<Rightarrow>
         (let w2 = w1\<lparr>tabs_script := visits\<rparr> in
          (case created visit of
            Inl message \<Rightarrow> (Rejected (Message message), w2)
          | Inr tabId \<Rightarrow>
             (let w3 = emit AddListener w2;
                  (calls, callback) = tab_wait tabId [] (deliveries visit);
                  w4 = w3\<lparr>trace := trace w3 @ replicate (length calls) (TabsRemove tabId)\<rparr>
              in (case callback of
                    None \<Rightarrow> (Pending, w4)
                  | Some (n, st, lastError, later) \<Rightarrow>
                     (let w5 = (case lastError of
                                  None \<Rightarrow> w4
                                | Some message \<Rightarrow> emit (Log message) w4);
                          w6 = emit RemoveListener w5;
                          w7 = w6\<lparr>background :=
                                    background w6 @ late_callbacks (length calls) [n] later\<rparr>
                      in if st = Complete then (Resolved (), w7)
                         else (Rejected Undefined, w7))))))))"

text \<open>The loop of \<^verbatim>\<open>updateTokens\<close> over the cookies.\<close>

fun store_tokens :: "cookie list \<Rightarrow> world \<Rightarrow> world" where
  "store_tokens [] w = w"
| "store_tokens (cookie # cookies) w =
     store_tokens cookies
       (if cookie_name cookie = js ''qtv'' then w\<lparr>qtv := cookie_value cookie\<rparr>
        else if cookie_name cookie = js ''qtk'' then w\<lparr>qtk := cookie_value cookie\<rparr>
        else w)"

definition updateTokens :: "world \<Rightarrow> unit promise \<times> world" where
  "updateTokens w =
     (case requestHomePage w of
        (Resolved u, w1) \<Rightarrow>
          (let w2 = emit (CookiesGetAll BASE_URL) w1 in
           (case cookies_getAll_script w2 of
             [] \<Rightarrow> (Pending, w2)
           | cookies # rest \<Rightarrow>
               (Resolved (), store_tokens cookies (w2\<lparr>cookies_getAll_script := rest\<rparr>))))
      | (Rejected e, w1) \<Rightarrow> (Rejected e, w1)
      | (Pending, w1) \<Rightarrow> (Pending, w1))"

subsection \<open>parseResult\<close>

text \<open>
  \<^verbatim>\<open>s.split(/\s*\/\s*/g)\<close>, following the split of ECMAScript for a regular
  expression. \<open>match_separator\<close> matches the expression at the head of a string and
  gives the length of the match: the white space is taken greedily, and since a slash
  is no white space there is nothing to backtrack. \<open>split_loop\<close> holds the text since
  the end of the last match and the text not yet looked at; a match is never empty, so
  it always closes a segment. (The split is cut at \<open>2\<^sup>3\<^sup>2 - 1\<close> segments, more than a
  string has characters in the engines the extension runs on.)
\<close>

definition match_separator :: "jsstring \<Rightarrow> nat option" where
  "match_separator s =
     (let leading = takeWhile is_space s in
      case drop (length leading) s of
        [] \<Rightarrow> None
      | c # trailing \<Rightarrow>
          if c = slash then Some (length leading + 1 + length (takeWhile is_space trailing))
          else None)"

fun split_loop :: "jsstring \<Rightarrow> jsstring \<Rightarrow> jsstring list" where
  "split_loop seg [] = [seg]"
| "split_loop seg (c # cs) =
     (case match_separator (c # cs) of
        None \<Rightarrow> split_loop (seg @ [c]) cs
      | Some n \<Rightarrow> seg # split_loop [] (drop (n - 1) cs))"

definition split_slash :: "jsstring \<Rightarrow> jsstring list" where
  "split_slash s = split_loop [] s"

text \<open>\<^verbatim>\<open>xs[0]\<close>: \<^verbatim>\<open>undefined\<close> on an empty array.\<close>

definition index0 :: "'a list \<Rightarrow> 'a option" where
  "index0 xs = (case xs of [] \<Rightarrow> None | x # _ \<Rightarrow> Some x)"

definition truthy :: "jsstring option \<Rightarrow> bool" where
  "truthy v = (case v of None \<Rightarrow> False | Some s \<Rightarrow> s \<noteq> [])"

fun join :: "jsstring \<Rightarrow> jsstring list \<Rightarrow> jsstring" where
  "join sep [] = []"
| "join sep [x] = x"
| "join sep (x # y # ys) = x @ sep @ join sep (y # ys)"

text \<open>\<^verbatim>\<open>xs.map(f)\<close> where \<open>f\<close> may throw: the first exception ends the map.\<close>

fun map_throw :: "('a \<Rightarrow> 'e + 'b) \<Rightarrow> 'a list \<Rightarrow> 'e + 'b list" where
  "map_throw f [] = Inr []"
| "map_throw f (x # xs) =
     (case f x of
        Inl e \<Rightarrow> Inl e
      | Inr y \<Rightarrow> (case map_throw f xs of Inl e \<Rightarrow> Inl e | Inr ys \<Rightarrow> Inr (y # ys)))"

text \<open>
  \<^verbatim>\<open>JSON.parse\<close> is a parameter: it throws (\<open>Inl\<close>) or gives the parsed document.
  Reading a property of \<^verbatim>\<open>undefined\<close> and calling a method of it throw a TypeError.
\<close>

definition parseResult ::
  "(jsstring \<Rightarrow> js_exception + examples_doc) \<Rightarrow> response_data \<Rightarrow> jsstring \<Rightarrow> js_exception + result" where
  "parseResult JSON_parse response original =
     (case data_translate response of None \<Rightarrow> Inl TypeError | Some tr \<Rightarrow>
     (case records tr of None \<Rightarrow> Inl TypeError | Some recs \<Rightarrow>
     (case index0 recs of None \<Rightarrow> Inl TypeError | Some record0 \<Rightarrow>
     (case targetText record0 of None \<Rightarrow> Inl TypeError | Some target \<Rightarrow>
      (let result = empty_result\<lparr>originalText := sourceText record0\<rparr>;
           result = result\<lparr>mainMeaning := index0 (split_slash target)\<rparr>;
           result = (if \<not> truthy (originalText result)
                        \<or> (case originalText result of None \<Rightarrow> False | Some s \<Rightarrow> length s \<le> 0)
                     then result\<lparr>originalText := Some original\<rparr> else result);
           suggested =
             (case data_suggest response of None \<Rightarrow> Inr result | Some sg \<Rightarrow>
             (case suggest_data sg of None \<Rightarrow> Inr result | Some entries \<Rightarrow>
             (case entries of [] \<Rightarrow> Inr result | entry0 # _ \<Rightarrow>
               (let result = (if truthy (prx_ph_AmE entry0)
                              then result\<lparr>sPronunciation := prx_ph_AmE entry0\<rparr> else result)
                in if truthy (examples_json entry0) then
                     (case JSON_parse (to_string (examples_json entry0)) of Inl e \<Rightarrow> Inl e | Inr doc \<Rightarrow>
                     (case basic doc of None \<Rightarrow> Inl TypeError | Some items \<Rightarrow>
                        Inr (result\<lparr>examples := Some (map (\<lambda>item.
                          \<lparr>ex_source = sourceText item, ex_target = targetText item\<rparr>) items)\<rparr>)))
                   else Inr result))))
       in (case suggested of Inl e \<Rightarrow> Inl e | Inr result \<Rightarrow>
          (case data_dict response of None \<Rightarrow> Inr result | Some d \<Rightarrow>
          (case abstract d of None \<Rightarrow> Inr result | Some items \<Rightarrow>
            if length items > 0 then
              (case map_throw (\<lambda>item. (case explanation item of
                                          None \<Rightarrow> Inl TypeError
                                        | Some ex \<Rightarrow> Inr \<lparr>pos = ps item, meaning = join (js '', '') ex\<rparr>))
                      items of
                 Inl e \<Rightarrow> Inl e
               | Inr meanings \<Rightarrow> Inr (result\<lparr>detailedMeanings := Some meanings\<rparr>))
            else Inr result))))))))"

subsection \<open>detect\<close>

text \<open>
  \<^verbatim>\<open>CODE_TO_LAN.get(result)\<close>, where \<open>result\<close> may be \<^verbatim>\<open>undefined\<close>: no key of the
  table is \<^verbatim>\<open>undefined\<close>.
\<close>

definition detectRequest :: "jsstring \<Rightarrow> request" where
  "detectRequest text =
     \<lparr>http_method = js ''POST'', baseURL = BASE_URL, url = js ''/api/translate'',
      headers = HEADERS,
      params = URLSearchParams
                 [(js ''source'', to_string (Map_get LAN_TO_CODE (js ''auto''))),
                  (js ''target'', to_string (Map_get LAN_TO_CODE (js ''zh-CN''))),
                  (js ''sourceText'', text)]\<rparr>"

definition detect :: "jsstring \<Rightarrow> world \<Rightarrow> jsstring option promise \<times> world" where
  "detect text w =
     (case axios (detectRequest text) w of
        (Resolved response, w1) \<Rightarrow>
          (case data_translate (data response) of
             None \<Rightarrow> (Rejected (Exception TypeError), w1)
           | Some tr \<Rightarrow>
               (let result = source tr
                in (Resolved (case result of None \<Rightarrow> None | Some code \<Rightarrow> Map_get CODE_TO_LAN code), w1)))
      | (Rejected e, w1) \<Rightarrow> (Rejected e, w1)
      | (Pending, w1) \<Rightarrow> (Pending, w1))"

subsection \<open>translate\<close>

text \<open>
  \<open>retryCount\<close> is the variable that the closure \<^verbatim>\<open>translateOnce\<close> shares with its
  own retry; here it is an argument. An exception thrown by \<open>parseResult\<close> rejects the
  promise of the async function.
\<close>

definition translateRequest :: "jsstring \<Rightarrow> jsstring \<Rightarrow> jsstring \<Rightarrow> world \<Rightarrow> int \<Rightarrow> request" where
  "translateRequest text from to w now =
     \<lparr>http_method = js ''POST'', baseURL = BASE_URL, url = js ''/api/translate'',
      headers = HEADERS,
      params = URLSearchParams
                 [(js ''source'', to_string (Map_get LAN_TO_CODE from)),
                  (js ''target'', to_string (Map_get LAN_TO_CODE to)),
                  (js ''sourceText'', text),
                  (js ''qtv'', qtv w),
                  (js ''qtk'', qtk w),
                  (js ''sessionUuid'', js ''translate_uuid'' @ dec_int now)]\<rparr>"

function translateOnce ::
  "(jsstring \<Rightarrow> js_exception + examples_doc) \<Rightarrow> jsstring \<Rightarrow> jsstring \<Rightarrow> jsstring \<Rightarrow> nat \<Rightarrow> world
     \<Rightarrow> result promise \<times> world" where
  "translateOnce JSON_parse text from to retryCount w =
     (let (now, w0) = getTime w in
      (case axios (translateRequest text from to w0 now) w0 of
         (Resolved response, w1) \<Rightarrow>
           if data_dict (data response) \<noteq> None
              \<or> (data_translate (data response) \<noteq> None \<and> retryCount \<ge> MAX_RETRY)
           then (case parseResult JSON_parse (data response) text of
                   Inl exn \<Rightarrow> (Rejected (Exception exn), w1)
                 | Inr result \<Rightarrow> (Resolved result, w1))
           else if retryCount < MAX_RETRY
           then (case updateTokens w1 of
                   (Resolved u, w2) \<Rightarrow> translateOnce JSON_parse text from to (retryCount + 1) w2
                 | (Rejected e, w2) \<Rightarrow> (Rejected e, w2)
                 | (Pending, w2) \<Rightarrow> (Pending, w2))
           else (Rejected (ApiError (js ''API_ERR'') (status response)
                   (js ''Translate failed, please contact developers to report problem.'')
                   (Inl response)), w1)
       | (Rejected e, w1) \<Rightarrow> (Rejected e, w1)
       | (Pending, w1) \<Rightarrow> (Pending, w1)))"
  by pat_completeness auto
termination
  by (relation "measure (\<lambda>(JSON_parse, text, from, to, retryCount, w). MAX_RETRY - retryCount)") auto

declare translateOnce.simps [simp del]

definition translate ::
  "(jsstring \<Rightarrow> js_exception + examples_doc) \<Rightarrow> jsstring \<Rightarrow> jsstring \<Rightarrow> jsstring \<Rightarrow> world
     \<Rightarrow> result promise \<times> world" where
  "translate JSON_parse text from to w = translateOnce JSON_parse text from to 0 w"

subsection \<open>pronounce and stopPronounce\<close>

definition stopPronounce :: "world \<Rightarrow> world" where
  "stopPronounce w =
     (if \<not> audio_paused w then (emit AudioPause w)\<lparr>audio_paused := True\<rparr> else w)"

text \<open>
  The body of the \<^verbatim>\<open>try\<close> block of \<^verbatim>\<open>pronounceOnce\<close>. \<^verbatim>\<open>encodeURIComponent\<close> is a
  parameter: it throws a URIError (\<open>Inl\<close>) on a lone surrogate, before the source of
  the audio element is assigned.
\<close>

definition pronounceAttempt ::
  "(jsstring \<Rightarrow> js_exception + jsstring) \<Rightarrow> jsstring \<Rightarrow> jsstring \<Rightarrow> world \<Rightarrow> unit promise \<times> world" where
  "pronounceAttempt encodeURIComponent text language w =
     (let w1 = emit (CookiesGet BASE_URL (js ''fy_guid'')) w in
      (case cookies_get_script w1 of
         [] \<Rightarrow> (Pending, w1)
       | cookie # rest \<Rightarrow>
          (let w2 = w1\<lparr>cookies_get_script := rest\<rparr> in
           if cookie = None \<or> \<not> truthy (map_option cookie_value cookie)
           then (Rejected (Message (js ''Tencent guid not found!'')), w2)
           else
            (let guid = to_string (map_option cookie_value cookie) in
             (case encodeURIComponent text of
                Inl exn \<Rightarrow> (Rejected (Exception exn), w2)
              | Inr encoded \<Rightarrow>
                 (let src = BASE_URL @ js ''/api/tts?platform=PC_Website&lang=''
                              @ to_string (Map_get LAN_TO_CODE language)
                              @ js ''&text='' @ encoded @ js ''&guid='' @ guid;
                      w3 = (emit (AudioSetSrc src) w2)\<lparr>audio_src := src\<rparr>;
                      w4 = emit AudioPlay w3
                  in (case audio_play_script w4 of
                        [] \<Rightarrow> (Pending, w4)
                      | (None, paused) # plays \<Rightarrow>
                          (Resolved (), w4\<lparr>audio_play_script := plays, audio_paused := paused\<rparr>)
                      | (Some e, paused) # plays \<Rightarrow>
                          (Rejected e, w4\<lparr>audio_play_script := plays, audio_paused := paused\<rparr>))))))))"

function pronounceOnce ::
  "(jsstring \<Rightarrow> js_exception + jsstring) \<Rightarrow> jsstring \<Rightarrow> jsstring \<Rightarrow> nat \<Rightarrow> world \<Rightarrow> unit promise \<times> world" where
  "pronounceOnce encodeURIComponent text language retryCount w =
     (case pronounceAttempt encodeURIComponent text language w of
        (Resolved u, w1) \<Rightarrow> (Resolved u, w1)
      | (Pending, w1) \<Rightarrow> (Pending, w1)
      | (Rejected error, w1) \<Rightarrow>
          if retryCount < MAX_RETRY
          then (case requestHomePage w1 of
                  (Resolved u, w2) \<Rightarrow> pronounceOnce encodeURIComponent text language (retryCount + 1) w2
                | (Rejected e, w2) \<Rightarrow> (Rejected e, w2)
                | (Pending, w2) \<Rightarrow> (Pending, w2))
          else (Rejected (ApiError (js ''API_ERR'') 0
                  (js ''Pronounce failed, please contact developers to report problem.'')
                  (Inr error)), w1))"
  by pat_completeness auto
termination
  by (relation "measure (\<lambda>(encodeURIComponent, text, language, retryCount, w). MAX_RETRY - retryCount)") auto

declare pronounceOnce.simps [simp del]

definition pronounce ::
  "(jsstring \<Rightarrow> js_exception + jsstring) \<Rightarrow> jsstring \<Rightarrow> jsstring \<Rightarrow> jsstring \<Rightarrow> world \<Rightarrow> unit promise \<times> world" where
  "pronounce encodeURIComponent text language speed w =
     pronounceOnce encodeURIComponent text language 0 (stopPronounce w)"

section \<open>Notions of the specification\<close>

text \<open>
  What the specification speaks of, stated on its own for the properties below: the
  fields of the provider's response, the first of the alternatives that the provider
  separates with slashes, and the requests found in a trace.
\<close>

definition first_alternative :: "jsstring \<Rightarrow> jsstring" where
  "first_alternative s =
     (if slash \<in> set s then rev (dropWhile is_space (rev (takeWhile (\<lambda>c. c \<noteq> slash) s))) else s)"

definition provider_targetText :: "response_data \<Rightarrow> jsstring option" where
  "provider_targetText response =
     Option.bind (data_translate response) (\<lambda>tr.
       Option.bind (records tr) (\<lambda>recs. Option.bind (index0 recs) targetText))"

definition provider_sourceText :: "response_data \<Rightarrow> jsstring option" where
  "provider_sourceText response =
     Option.bind (data_translate response) (\<lambda>tr.
       Option.bind (records tr) (\<lambda>recs. Option.bind (index0 recs) sourceText))"

definition provider_pronunciation :: "response_data \<Rightarrow> jsstring option" where
  "provider_pronunciation response =
     Option.bind (data_suggest response) (\<lambda>sg.
       Option.bind (suggest_data sg) (\<lambda>entries. Option.bind (index0 entries) prx_ph_AmE))"

definition provider_examples_json :: "response_data \<Rightarrow> jsstring option" where
  "provider_examples_json response =
     Option.bind (data_suggest response) (\<lambda>sg.
       Option.bind (suggest_data sg) (\<lambda>entries. Option.bind (index0 entries) examples_json))"

definition provider_abstract :: "response_data \<Rightarrow> abstract_item list option" where
  "provider_abstract response = Option.bind (data_dict response) abstract"

text \<open>
  The response that \<open>translate\<close> accepts, among the outcomes of its requests: the first
  one when it has a \<^verbatim>\<open>dict\<close>; otherwise the second one, when it has a \<^verbatim>\<open>dict\<close> or a
  \<^verbatim>\<open>translate\<close>.
\<close>

definition accepted_response :: "(thrown + response) list \<Rightarrow> response option" where
  "accepted_response outcomes =
     (case outcomes of
        Inr first # others \<Rightarrow>
          if data_dict (data first) \<noteq> None then Some first
          else (case others of
                  Inr second # _ \<Rightarrow>
                    if data_dict (data second) \<noteq> None \<or> data_translate (data second) \<noteq> None
                    then Some second else None
                | _ \<Rightarrow> None)
      | _ \<Rightarrow> None)"

text \<open>
  The updates of a tab that make the listener act: the \<^verbatim>\<open>tab.status\<close> values of the
  events of the tab whose status is not \<^verbatim>\<open>loading\<close>, in the order of delivery.
\<close>

fun heard :: "nat \<Rightarrow> tab_delivery list \<Rightarrow> tab_status list" where
  "heard tabId [] = []"
| "heard tabId (Updated id' st # ds) =
     (if id' = tabId \<and> st \<noteq> Loading then st # heard tabId ds else heard tabId ds)"
| "heard tabId (Removed n lastError # ds) = heard tabId ds"

fun is_update :: "tab_delivery \<Rightarrow> bool" where
  "is_update (Updated id' st) = True"
| "is_update (Removed n lastError) = False"

text \<open>The requests sent to the provider, in order, among the events of a trace.\<close>

fun sent :: "event list \<Rightarrow> request list" where
  "sent [] = []"
| "sent (Request req # es) = req # sent es"
| "sent (e # es) = sent es"

text \<open>The reads of the \<^verbatim>\<open>fy_guid\<close> cookie: one for each attempt of \<open>pronounce\<close>.\<close>

fun guid_reads :: "event list \<Rightarrow> nat" where
  "guid_reads [] = 0"
| "guid_reads (CookiesGet u n # es) = Suc (guid_reads es)"
| "guid_reads (e # es) = guid_reads es"

text \<open>The value that the loop of \<open>updateTokens\<close> leaves in a token: that of the last
  cookie with the token's name, or the stored value when there is none.\<close>

definition last_cookie :: "jsstring \<Rightarrow> cookie list \<Rightarrow> jsstring \<Rightarrow> jsstring" where
  "last_cookie n cookies stored =
     (case filter (\<lambda>c. cookie_name c = n) cookies of
        [] \<Rightarrow> stored
      | c # cs \<Rightarrow> cookie_value (last (c # cs)))"

section \<open>Auxiliary definitions of the proofs\<close>

text \<open>
  The first element of \<open>split_slash\<close>, found position by position as \<open>split_loop\<close> does.
\<close>

fun first_segment :: "jsstring \<Rightarrow> jsstring" where
  "first_segment [] = []"
| "first_segment (c # cs) = (if match_separator (c # cs) \<noteq> None then [] else c # first_segment cs)"

text \<open>
  The three parts of \<open>parseResult\<close>, for the proofs: the lines on \<^verbatim>\<open>response.translate\<close>,
  the block on \<^verbatim>\<open>response.suggest\<close> and the block on \<^verbatim>\<open>response.dict\<close>.
\<close>

definition translate_part :: "response_data \<Rightarrow> jsstring \<Rightarrow> js_exception + result" where
  "translate_part response original =
     (case data_translate response of None \<Rightarrow> Inl TypeError | Some tr \<Rightarrow>
     (case records tr of None \<Rightarrow> Inl TypeError | Some recs \<Rightarrow>
     (case index0 recs of None \<Rightarrow> Inl TypeError | Some record0 \<Rightarrow>
     (case targetText record0 of None \<Rightarrow> Inl TypeError | Some target \<Rightarrow>
      (let result = empty_result\<lparr>originalText := sourceText record0\<rparr>;
           result = result\<lparr>mainMeaning := index0 (split_slash target)\<rparr>
       in Inr (if \<not> truthy (originalText result)
                  \<or> (case originalText result of None \<Rightarrow> False | Some s \<Rightarrow> length s \<le> 0)
               then result\<lparr>originalText := Some original\<rparr> else result))))))"

definition suggest_part ::
  "(jsstring \<Rightarrow> js_exception + examples_doc) \<Rightarrow> response_data \<Rightarrow> result \<Rightarrow> js_exception + result" where
  "suggest_part JSON_parse response result =
     (case data_suggest response of None \<Rightarrow> Inr result | Some sg \<Rightarrow>
     (case suggest_data sg of None \<Rightarrow> Inr result | Some entries \<Rightarrow>
     (case entries of [] \<Rightarrow> Inr result | entry0 # _ \<Rightarrow>
       (let result = (if truthy (prx_ph_AmE entry0)
                      then result\<lparr>sPronunciation := prx_ph_AmE entry0\<rparr> else result)
        in if truthy (examples_json entry0) then
             (case JSON_parse (to_string (examples_json entry0)) of Inl e \<Rightarrow> Inl e | Inr doc \<Rightarrow>
             (case basic doc of None \<Rightarrow> Inl TypeError | Some items \<Rightarrow>
                Inr (result\<lparr>examples := Some (map (\<lambda>item.
                  \<lparr>ex_source = sourceText item, ex_target = targetText item\<rparr>) items)\<rparr>)))
           else Inr result))))"

definition dict_part :: "response_data \<Rightarrow> result \<Rightarrow> js_exception + result" where
  "dict_part response result =
     (case data_dict response of None \<Rightarrow> Inr result | Some d \<Rightarrow>
     (case abstract d of None \<Rightarrow> Inr result | Some items \<Rightarrow>
       if length items > 0 then
         (case map_throw (\<lambda>item. (case explanation item of
                                     None \<Rightarrow> Inl TypeError
                                   | Some ex \<Rightarrow> Inr \<lparr>pos = ps item, meaning = join (js '', '') ex\<rparr>))
                 items of
            Inl e \<Rightarrow> Inl e
          | Inr meanings \<Rightarrow> Inr (result\<lparr>detailedMeanings := Some meanings\<rparr>))
       else Inr result))"

section \<open>Example inputs\<close>

text \<open>
  The JSON text \<^verbatim>\<open>{"basic":[{"sourceText":"hao","targetText":"good"}]}\<close>; \<open>dq\<close> is the
  double quote.
\<close>

definition dq :: jsstring where
  "dq = [0x22]"

definition example_json :: jsstring where
  "example_json =
     js ''{'' @ dq @ js ''basic'' @ dq @ js '':[{'' @ dq @ js ''sourceText'' @ dq @ js '':''
       @ dq @ js ''hao'' @ dq @ js '','' @ dq @ js ''targetText'' @ dq @ js '':''
       @ dq @ js ''good'' @ dq @ js ''}]}''"

text \<open>A response with a dictionary entry, whose record has no source text.\<close>

definition example_data :: response_data where
  "example_data =
     \<lparr>data_dict = Some \<lparr>abstract = Some [\<lparr>ps = Some (js ''adj.''),
                                             explanation = Some [js ''fine'', js ''well'']\<rparr>]\<rparr>,
      data_translate = Some \<lparr>source = Some (js ''zh''),
                              records = Some [\<lparr>sourceText = None,
                                               targetText = Some (js ''good / fine/ nice'')\<rparr>]\<rparr>,
      data_suggest = Some \<lparr>suggest_data = Some [\<lparr>prx_ph_AmE = Some (js ''hao''),
                                                   examples_json = Some example_json\<rparr>]\<rparr>\<rparr>"

definition example_response :: response where
  "example_response = \<lparr>status = 200, data = example_data\<rparr>"

text \<open>A response without any of the fields, as an expired session gets it.\<close>

definition empty_data :: response_data where
  "empty_data = \<lparr>data_dict = None, data_translate = None, data_suggest = None\<rparr>"

definition failed_response :: response where
  "failed_response = \<lparr>status = 200, data = empty_data\<rparr>"

text \<open>
  \<^verbatim>\<open>JSON.parse\<close> as far as the examples need it: the document of \<open>example_json\<close>; the
  other strings that the examples hold are no JSON texts.
\<close>

definition example_parse :: "jsstring \<Rightarrow> js_exception + examples_doc" where
  "example_parse s =
     (if s = example_json
      then Inr \<lparr>basic = Some [\<lparr>sourceText = Some (js ''hao''), targetText = Some (js ''good'')\<rparr>]\<rparr>
      else Inl SyntaxError)"

text \<open>A world in which nothing has happened yet and no collaborator answers.\<close>

definition silent_world :: world where
  "silent_world =
     \<lparr>qtk = js ''k0'', qtv = js ''v0'', audio_paused = True, audio_src = [],
      axios_script = [], tabs_script = [], cookies_getAll_script = [],
      cookies_get_script = [], audio_play_script = [],
      clock = (\<lambda>n. 1000 + int n), clock_reads = 0, trace = [], background = []\<rparr>"

definition example_result :: result where
  "example_result =
     \<lparr>originalText = Some (js ''hao''), mainMeaning = Some (js ''good''),
      sPronunciation = Some (js ''hao''),
      examples = Some [\<lparr>ex_source = Some (js ''hao''), ex_target = Some (js ''good'')\<rparr>],
      detailedMeanings = Some [\<lparr>pos = Some (js ''adj.''), meaning = js ''fine, well''\<rparr>]\<rparr>"

definition answered_world :: world where
  "answered_world = silent_world\<lparr>axios_script := [Inr example_response]\<rparr>"

text \<open>
  The provider's page loads in tab 7 and the browser holds a fresh \<^verbatim>\<open>qtk\<close> cookie, but
  no \<^verbatim>\<open>qtv\<close> cookie.
\<close>

definition fresh_cookies :: "cookie list" where
  "fresh_cookies =
     [\<lparr>cookie_name = js ''fy_guid'', cookie_value = js ''g1''\<rparr>,
      \<lparr>cookie_name = js ''qtk'', cookie_value = js ''k1''\<rparr>]"

definition loaded_world :: world where
  "loaded_world =
     silent_world\<lparr>tabs_script :=
                     [\<lparr>created = Inr 7,
                       deliveries = [Updated 7 Loading, Updated 3 Complete, Updated 7 Complete,
                                     Removed 0 None]\<rparr>],
                   cookies_getAll_script := [fresh_cookies]\<rparr>"

text \<open>
  The tab reports twice that it is complete before the callback of the first
  \<^verbatim>\<open>chrome.tabs.remove\<close> runs; the second call finds no tab any more.
\<close>

definition twice_world :: world where
  "twice_world =
     silent_world\<lparr>tabs_script :=
                     [\<lparr>created = Inr 7,
                       deliveries = [Updated 7 Complete, Updated 7 Complete, Removed 0 None,
                                     Removed 1 (Some (js ''No tab with id: 7.''))]\<rparr>],
                   cookies_getAll_script := [fresh_cookies]\<rparr>"

text \<open>The tab is created and reports that it is loading; nothing else ever arrives.\<close>

definition loading_world :: world where
  "loading_world =
     silent_world\<lparr>tabs_script := [\<lparr>created = Inr 7, deliveries = [Updated 7 Loading]\<rparr>]\<rparr>"

text \<open>
  The session has expired: the provider answers without any of the fields, and after the
  page has been visited again it does so once more, with another status.
\<close>

definition refused_response :: response where
  "refused_response = \<lparr>status = 202, data = empty_data\<rparr>"

definition expired_world :: world where
  "expired_world = loaded_world\<lparr>axios_script := [Inr failed_response, Inr refused_response]\<rparr>"

text \<open>
  The first answer lacks the fields and the browser cannot open a tab; a second request
  would have been answered well.
\<close>

definition blocked_world :: world where
  "blocked_world =
     silent_world\<lparr>axios_script := [Inr failed_response, Inr example_response],
                   tabs_script := [\<lparr>created = Inl (js ''No current window''),
                                    deliveries = []\<rparr>]\<rparr>"

text \<open>Something is playing, the browser has the \<^verbatim>\<open>fy_guid\<close> cookie and the audio starts.\<close>

definition playing_world :: world where
  "playing_world =
     silent_world\<lparr>audio_paused := False,
                   cookies_get_script := [Some \<lparr>cookie_name = js ''fy_guid'', cookie_value = js ''g1''\<rparr>],
                   audio_play_script := [(None, False)]\<rparr>"

text \<open>
  The \<^verbatim>\<open>fy_guid\<close> cookie is missing, before and after the visit of the provider's page,
  which loads and leaves a fresh \<^verbatim>\<open>qtk\<close> cookie.
\<close>

definition guidless_world :: world where
  "guidless_world = loaded_world\<lparr>cookies_get_script := [None, None]\<rparr>"

text \<open>The \<^verbatim>\<open>fy_guid\<close> cookie is missing and the browser cannot open a tab.\<close>

definition guidless_blocked_world :: world where
  "guidless_blocked_world =
     silent_world\<lparr>cookies_get_script := [None, None],
                   tabs_script := [\<lparr>created = Inl (js ''No current window''),
                                    deliveries = []\<rparr>]\<rparr>"

text \<open>An encoder for texts of unreserved characters, which stand for themselves.\<close>

definition plain_encode :: "jsstring \<Rightarrow> js_exception + jsstring" where
  "plain_encode s = Inr s"

section \<open>Properties\<close>

subsection \<open>The language table\<close>

lemma js_simps: "js [] = []" "js (c # cs) = of_char c # js cs"
  by (simp_all add: js_def)

lemma LAN_TO_CODE_eq: "LAN_TO_CODE = LANGUAGES"
  unfolding LAN_TO_CODE_def Map_new_def LANGUAGES_def
  by (simp add: js_simps)

lemma CODE_TO_LAN_eq: "CODE_TO_LAN = map (\<lambda>(lan, code). (code, lan)) LANGUAGES"
  unfolding CODE_TO_LAN_def Map_new_def LANGUAGES_def
  by (simp add: js_simps)

text \<open>
  C2. Every canonical tag of \<open>supportedLanguages\<close> other than \<^verbatim>\<open>"auto"\<close> has a provider
  code in \<open>LAN_TO_CODE\<close>, and \<open>CODE_TO_LAN\<close> maps that code back to the tag.
\<close>

theorem language_table_round_trip:
  assumes "tag \<in> supportedLanguages" and "tag \<noteq> js ''auto''"
  shows "\<exists>code. Map_get LAN_TO_CODE tag = Some code \<and> Map_get CODE_TO_LAN code = Some tag"
  using assms
  unfolding supportedLanguages_def Map_keys_def Map_get_def LAN_TO_CODE_eq CODE_TO_LAN_eq
    LANGUAGES_def
  by (auto simp add: js_simps)

theorem language_table_round_trip_witness:
  "js ''ja'' \<in> supportedLanguages \<and> js ''ja'' \<noteq> js ''auto''
   \<and> Map_get LAN_TO_CODE (js ''ja'') = Some (js ''jp'')
   \<and> Map_get CODE_TO_LAN (js ''jp'') = Some (js ''ja'')"
proof -
  have a: "js ''ja'' \<in> supportedLanguages"
    unfolding supportedLanguages_def Map_keys_def LAN_TO_CODE_eq LANGUAGES_def
    by (simp add: js_simps)
  have b: "js ''ja'' \<noteq> js ''auto''"
    by (simp add: js_simps)
  have c: "Map_get LAN_TO_CODE (js ''ja'') = Some (js ''jp'')"
    unfolding Map_get_def LAN_TO_CODE_eq LANGUAGES_def by (simp add: js_simps)
  from language_table_round_trip [OF a b] c a b show ?thesis by auto
qed

subsection \<open>The split at slashes\<close>

lemma not_space_slash: "\<not> is_space slash"
  by (simp add: is_space_def slash_def)

lemma match_separator_iff:
  "match_separator s \<noteq> None \<longleftrightarrow> (\<exists>rest. dropWhile is_space s = slash # rest)"
  by (auto simp add: match_separator_def Let_def dropWhile_eq_drop split: list.splits)

lemma split_loop_first: "\<exists>segs. split_loop seg s = (seg @ first_segment s) # segs"
proof (induction s arbitrary: seg)
  case Nil
  show ?case by simp
next
  case (Cons c cs)
  show ?case
  proof (cases "match_separator (c # cs)")
    case None
    with Cons [of "seg @ [c]"] show ?thesis by simp
  next
    case (Some n)
    then show ?thesis by simp
  qed
qed

lemma strip_Cons:
  "rev (dropWhile is_space (rev (c # pre))) =
     (if is_space c \<and> (\<forall>x\<in>set pre. is_space x) then [] else c # rev (dropWhile is_space (rev pre)))"
proof (cases "\<forall>x\<in>set pre. is_space x")
  case True
  then have "dropWhile is_space (rev pre @ [c]) = dropWhile is_space [c]"
    by (intro dropWhile_append2) simp
  moreover from True have "dropWhile is_space (rev pre) = []" by simp
  ultimately show ?thesis using True by simp
next
  case False
  then obtain x where "x \<in> set (rev pre)" "\<not> is_space x" by auto
  then have "dropWhile is_space (rev pre @ [c]) = dropWhile is_space (rev pre) @ [c]"
    by (rule dropWhile_append1)
  with False show ?thesis by simp
qed

lemma split_at_slash:
  assumes "slash \<in> set s"
  shows "\<exists>rest. s = takeWhile (\<lambda>c. c \<noteq> slash) s @ slash # rest"
proof -
  from assms have "dropWhile (\<lambda>c. c \<noteq> slash) s \<noteq> []"
    by (auto simp: dropWhile_eq_Nil_conv)
  then obtain x rest where d: "dropWhile (\<lambda>c. c \<noteq> slash) s = x # rest"
    by (cases "dropWhile (\<lambda>c. c \<noteq> slash) s") auto
  from hd_dropWhile [of "\<lambda>c. c \<noteq> slash" s] d have "x = slash" by simp
  with d takeWhile_dropWhile_id [of "\<lambda>c. c \<noteq> slash" s] show ?thesis by metis
qed

lemma dropWhile_spaces_slash:
  assumes "\<forall>x\<in>set ws. is_space x"
  shows "dropWhile is_space (ws @ slash # rest) = slash # rest"
proof -
  from assms have "dropWhile is_space (ws @ slash # rest) = dropWhile is_space (slash # rest)"
    by (intro dropWhile_append2) simp
  then show ?thesis by (simp add: not_space_slash)
qed

lemma takeWhile_spaces_slash:
  assumes "\<forall>x\<in>set ws. is_space x"
  shows "takeWhile (\<lambda>c. c \<noteq> slash) (ws @ slash # rest) = ws"
proof -
  from assms have "\<And>x. x \<in> set ws \<Longrightarrow> x \<noteq> slash"
    using not_space_slash by auto
  then have "takeWhile (\<lambda>c. c \<noteq> slash) (ws @ slash # rest)
               = ws @ takeWhile (\<lambda>c. c \<noteq> slash) (slash # rest)"
    by (intro takeWhile_append2) simp
  then show ?thesis by simp
qed

lemma first_segment_eq: "first_segment s = first_alternative s"
proof (induction s)
  case Nil
  show ?case by (simp add: first_alternative_def)
next
  case (Cons c cs)
  show ?case
  proof (cases "match_separator (c # cs) \<noteq> None")
    case True
    then obtain rest where d: "dropWhile is_space (c # cs) = slash # rest"
      using match_separator_iff by blast
    define ws where "ws = takeWhile is_space (c # cs)"
    have s: "c # cs = ws @ slash # rest"
      using takeWhile_dropWhile_id [of is_space "c # cs"] d by (simp add: ws_def)
    have sp: "\<forall>x\<in>set ws. is_space x"
      by (auto simp: ws_def dest: set_takeWhileD)
    have "first_alternative (c # cs) = []"
      unfolding s using sp by (simp add: first_alternative_def takeWhile_spaces_slash)
    moreover from True have "first_segment (c # cs) = []"
      by simp
    ultimately show ?thesis by simp
  next
    case False
    then have nomatch: "\<And>rest. dropWhile is_space (c # cs) \<noteq> slash # rest"
      using match_separator_iff by blast
    have c: "c \<noteq> slash"
      using nomatch [of cs] by (auto simp: not_space_slash)
    show ?thesis
    proof (cases "slash \<in> set cs")
      case no: False
      with c False Cons.IH show ?thesis by (simp add: first_alternative_def)
    next
      case yes: True
      define pre where "pre = takeWhile (\<lambda>c. c \<noteq> slash) cs"
      from split_at_slash [OF yes] obtain rest where cs: "cs = pre @ slash # rest"
        by (auto simp: pre_def)
      have "\<not> (is_space c \<and> (\<forall>x\<in>set pre. is_space x))"
      proof
        assume "is_space c \<and> (\<forall>x\<in>set pre. is_space x)"
        then have "\<forall>x\<in>set (c # pre). is_space x" by simp
        from dropWhile_spaces_slash [OF this, of rest] nomatch [of rest] cs
        show False by simp
      qed
      then have "rev (dropWhile is_space (rev (c # pre))) = c # rev (dropWhile is_space (rev pre))"
        by (simp only: strip_Cons if_False)
      with c yes False Cons.IH show ?thesis
        by (simp add: first_alternative_def pre_def)
    qed
  qed
qed

lemma split_slash_first: "index0 (split_slash s) = Some (first_alternative s)"
  using split_loop_first [of "[]" s] by (auto simp: split_slash_def index0_def first_segment_eq)



subsection \<open>parseResult\<close>

lemma parseResult_parts:
  "parseResult JSON_parse response original =
     (case translate_part response original of
        Inl e \<Rightarrow> Inl e
      | Inr result \<Rightarrow>
          (case suggest_part JSON_parse response result of
             Inl e \<Rightarrow> Inl e
           | Inr result' \<Rightarrow> dict_part response result'))"
  unfolding parseResult_def translate_part_def suggest_part_def dict_part_def
  by (simp add: Let_def truthy_def split: option.split)

lemma translate_part_Inr:
  assumes "translate_part response original = Inr result"
  shows "originalText result =
           Some (case provider_sourceText response of
                   None \<Rightarrow> original
                 | Some s \<Rightarrow> if s = [] then original else s)"
    and "\<exists>target. provider_targetText response = Some target
           \<and> mainMeaning result = Some (first_alternative target)"
    and "sPronunciation result = None"
    and "examples result = None"
    and "detailedMeanings result = None"
  using assms
  by (auto simp add: translate_part_def Let_def provider_sourceText_def provider_targetText_def
        truthy_def empty_result_def split_slash_first split: option.splits if_splits)

lemma suggest_part_Inr:
  assumes "suggest_part JSON_parse response result = Inr result'"
  shows "originalText result' = originalText result"
    and "mainMeaning result' = mainMeaning result"
    and "detailedMeanings result' = detailedMeanings result"
    and "sPronunciation result' =
           (if truthy (provider_pronunciation response) then provider_pronunciation response
            else sPronunciation result)"
    and "examples result = None \<Longrightarrow>
           (examples result' \<noteq> None) = truthy (provider_examples_json response)"
  using assms
  by (auto simp add: suggest_part_def Let_def provider_pronunciation_def
        provider_examples_json_def truthy_def index0_def
        split: option.splits list.splits sum.splits if_splits)

lemma dict_part_Inr:
  assumes "dict_part response result = Inr result'"
  shows "originalText result' = originalText result"
    and "mainMeaning result' = mainMeaning result"
    and "sPronunciation result' = sPronunciation result"
    and "examples result' = examples result"
    and "detailedMeanings result = None \<Longrightarrow>
           (detailedMeanings result' \<noteq> None)
             = (\<exists>items. provider_abstract response = Some items \<and> items \<noteq> [])"
  using assms
  by (auto simp add: dict_part_def provider_abstract_def
        split: option.splits sum.splits if_splits)

lemma parseResult_Inr:
  assumes "parseResult JSON_parse response original = Inr result"
  shows "originalText result =
           Some (case provider_sourceText response of
                   None \<Rightarrow> original
                 | Some s \<Rightarrow> if s = [] then original else s)"
    and "\<exists>target. provider_targetText response = Some target
           \<and> mainMeaning result = Some (first_alternative target)"
    and "sPronunciation result =
           (if truthy (provider_pronunciation response) then provider_pronunciation response
            else None)"
    and "(examples result \<noteq> None) = truthy (provider_examples_json response)"
    and "(detailedMeanings result \<noteq> None)
           = (\<exists>items. provider_abstract response = Some items \<and> items \<noteq> [])"
proof -
  from assms obtain r1 r2 where
    1: "translate_part response original = Inr r1" and
    2: "suggest_part JSON_parse response r1 = Inr r2" and
    3: "dict_part response r2 = Inr result"
    by (auto simp add: parseResult_parts split: sum.splits)
  show "originalText result =
           Some (case provider_sourceText response of
                   None \<Rightarrow> original
                 | Some s \<Rightarrow> if s = [] then original else s)"
    using translate_part_Inr(1) [OF 1] suggest_part_Inr(1) [OF 2] dict_part_Inr(1) [OF 3]
    by simp
  show "\<exists>target. provider_targetText response = Some target
           \<and> mainMeaning result = Some (first_alternative target)"
    using translate_part_Inr(2) [OF 1] suggest_part_Inr(2) [OF 2] dict_part_Inr(2) [OF 3]
    by simp
  show "sPronunciation result =
           (if truthy (provider_pronunciation response) then provider_pronunciation response
            else None)"
    using translate_part_Inr(3) [OF 1] suggest_part_Inr(4) [OF 2] dict_part_Inr(3) [OF 3]
    by simp
  show "(examples result \<noteq> None) = truthy (provider_examples_json response)"
    using translate_part_Inr(4) [OF 1] suggest_part_Inr(5) [OF 2] dict_part_Inr(4) [OF 3]
    by simp
  show "(detailedMeanings result \<noteq> None)
           = (\<exists>items. provider_abstract response = Some items \<and> items \<noteq> [])"
    using translate_part_Inr(5) [OF 1] suggest_part_Inr(3) [OF 2] dict_part_Inr(5) [OF 3]
    by simp
qed

subsection \<open>What the steps leave unchanged\<close>

lemma sent_append: "sent (xs @ ys) = sent xs @ sent ys"
  by (induction xs rule: sent.induct) simp_all

lemma guid_reads_append: "guid_reads (xs @ ys) = guid_reads xs + guid_reads ys"
  by (induction xs rule: guid_reads.induct) simp_all

lemma sent_TabsRemove: "sent (replicate k (TabsRemove tabId)) = []"
  by (induction k) simp_all

lemma guid_reads_TabsRemove: "guid_reads (replicate k (TabsRemove tabId)) = 0"
  by (induction k) simp_all

lemma requestHomePage_frame:
  "qtk (snd (requestHomePage w)) = qtk w"
  "qtv (snd (requestHomePage w)) = qtv w"
  "axios_script (snd (requestHomePage w)) = axios_script w"
  "cookies_getAll_script (snd (requestHomePage w)) = cookies_getAll_script w"
  "cookies_get_script (snd (requestHomePage w)) = cookies_get_script w"
  "audio_play_script (snd (requestHomePage w)) = audio_play_script w"
  "clock (snd (requestHomePage w)) = clock w"
  "clock_reads (snd (requestHomePage w)) = clock_reads w"
  by (simp_all add: requestHomePage_def emit_def Let_def
        split: list.split sum.split option.split prod.split)

lemma requestHomePage_trace:
  "sent (trace (snd (requestHomePage w))) = sent (trace w)"
  "guid_reads (trace (snd (requestHomePage w))) = guid_reads (trace w)"
  "CookiesGetAll u \<in> set (trace (snd (requestHomePage w))) \<longleftrightarrow> CookiesGetAll u \<in> set (trace w)"
  by (simp_all add: requestHomePage_def emit_def Let_def sent_append guid_reads_append
        sent_TabsRemove guid_reads_TabsRemove
        split: list.split sum.split option.split prod.split)

lemma store_tokens_frame:
  "axios_script (store_tokens cookies w) = axios_script w"
  "tabs_script (store_tokens cookies w) = tabs_script w"
  "cookies_getAll_script (store_tokens cookies w) = cookies_getAll_script w"
  "cookies_get_script (store_tokens cookies w) = cookies_get_script w"
  "audio_play_script (store_tokens cookies w) = audio_play_script w"
  "clock (store_tokens cookies w) = clock w"
  "clock_reads (store_tokens cookies w) = clock_reads w"
  "trace (store_tokens cookies w) = trace w"
  "background (store_tokens cookies w) = background w"
  by (induction cookies arbitrary: w; simp)+

lemma updateTokens_frame:
  "axios_script (snd (updateTokens w)) = axios_script w"
  "clock (snd (updateTokens w)) = clock w"
  "clock_reads (snd (updateTokens w)) = clock_reads w"
  "sent (trace (snd (updateTokens w))) = sent (trace w)"
  using requestHomePage_frame [of w] requestHomePage_trace(1) [of w]
  by (auto simp add: updateTokens_def emit_def Let_def store_tokens_frame sent_append
        split: prod.split promise.split list.split)


subsection \<open>translate, step by step\<close>

lemma translateRequest_getTime:
  "translateRequest text from to (snd (getTime w)) now = translateRequest text from to w now"
  by (simp add: translateRequest_def getTime_def)

lemma axios_trace: "trace (snd (axios req w)) = trace w @ [Request req]"
  by (simp add: axios_def emit_def Let_def split: list.split sum.split)

lemma axios_Resolved:
  assumes "axios req w = (Resolved response, w1)"
  shows "\<exists>rest. axios_script w = Inr response # rest \<and> axios_script w1 = rest"
  using assms
  by (auto simp add: axios_def emit_def Let_def split: list.splits sum.splits)

lemma getTime_frame:
  "axios_script (snd (getTime w)) = axios_script w"
  "trace (snd (getTime w)) = trace w"
  by (simp_all add: getTime_def)

text \<open>The retry: with \<open>retryCount = MAX_RETRY\<close> there is no further call.\<close>

lemma translateOnce_last:
  assumes "getTime w = (now, w0)"
    and "axios (translateRequest text from to w0 now) w0 = (answer, w1)"
  shows "translateOnce JSON_parse text from to (Suc 0) w =
           (case answer of
              Resolved response \<Rightarrow>
                if data_dict (data response) \<noteq> None \<or> data_translate (data response) \<noteq> None
                then (case parseResult JSON_parse (data response) text of
                        Inl exn \<Rightarrow> (Rejected (Exception exn), w1)
                      | Inr result \<Rightarrow> (Resolved result, w1))
                else (Rejected (ApiError (js ''API_ERR'') (status response)
                        (js ''Translate failed, please contact developers to report problem.'')
                        (Inl response)), w1)
            | Rejected e \<Rightarrow> (Rejected e, w1)
            | Pending \<Rightarrow> (Pending, w1))"
  using assms
  by (subst translateOnce.simps) (simp add: MAX_RETRY_def split: promise.split)

lemma translateOnce_first:
  assumes "getTime w = (now, w0)"
    and "axios (translateRequest text from to w0 now) w0 = (answer, w1)"
  shows "translateOnce JSON_parse text from to 0 w =
           (case answer of
              Resolved response \<Rightarrow>
                if data_dict (data response) \<noteq> None
                then (case parseResult JSON_parse (data response) text of
                        Inl exn \<Rightarrow> (Rejected (Exception exn), w1)
                      | Inr result \<Rightarrow> (Resolved result, w1))
                else (case updateTokens w1 of
                        (Resolved u, w2) \<Rightarrow> translateOnce JSON_parse text from to (Suc 0) w2
                      | (Rejected e, w2) \<Rightarrow> (Rejected e, w2)
                      | (Pending, w2) \<Rightarrow> (Pending, w2))
            | Rejected e \<Rightarrow> (Rejected e, w1)
            | Pending \<Rightarrow> (Pending, w1))"
  using assms
  by (subst translateOnce.simps) (simp add: MAX_RETRY_def split: promise.split prod.split)

lemma translateOnce_last_sent:
  "sent (trace (snd (translateOnce JSON_parse text from to (Suc 0) w)))
     = sent (trace w) @ [translateRequest text from to w (fst (getTime w))]"
proof -
  obtain now w0 where g: "getTime w = (now, w0)" by (cases "getTime w")
  obtain answer w1 where a: "axios (translateRequest text from to w0 now) w0 = (answer, w1)"
    by (cases "axios (translateRequest text from to w0 now) w0")
  have "snd (translateOnce JSON_parse text from to (Suc 0) w) = w1"
    by (simp add: translateOnce_last [OF g a] split: promise.split sum.split)
  moreover have "trace w1 = trace w @ [Request (translateRequest text from to w now)]"
    using axios_trace [of "translateRequest text from to w0 now" w0] a g
      getTime_frame(2) [of w] translateRequest_getTime [of "text" "from" "to" w now]
    by simp
  ultimately show ?thesis using g by (simp add: sent_append)
qed

lemma translateOnce_last_Resolved:
  assumes "fst (translateOnce JSON_parse text from to (Suc 0) w) = Resolved result"
  shows "\<exists>response rest. axios_script w = Inr response # rest
           \<and> (data_dict (data response) \<noteq> None \<or> data_translate (data response) \<noteq> None)
           \<and> parseResult JSON_parse (data response) text = Inr result"
proof -
  obtain now w0 where g: "getTime w = (now, w0)" by (cases "getTime w")
  obtain answer w1 where a: "axios (translateRequest text from to w0 now) w0 = (answer, w1)"
    by (cases "axios (translateRequest text from to w0 now) w0")
  from assms obtain response where r: "answer = Resolved response"
    and d: "data_dict (data response) \<noteq> None \<or> data_translate (data response) \<noteq> None"
    and p: "parseResult JSON_parse (data response) text = Inr result"
    by (auto simp add: translateOnce_last [OF g a] split: promise.splits sum.splits if_splits)
  have "axios_script w0 = axios_script w"
    using g getTime_frame(1) [of w] by simp
  moreover from axios_Resolved [OF a [unfolded r]]
  obtain rest where "axios_script w0 = Inr response # rest" by blast
  ultimately have "axios_script w = Inr response # rest" by simp
  with d p show ?thesis by blast
qed

text \<open>The result of \<open>translate\<close> is the result of \<open>parseResult\<close> for the response it accepts.\<close>

lemma translate_Resolved:
  assumes "fst (translate JSON_parse text from to w) = Resolved result"
  shows "\<exists>response. accepted_response (axios_script w) = Some response
           \<and> parseResult JSON_parse (data response) text = Inr result"
proof -
  obtain now w0 where g: "getTime w = (now, w0)" by (cases "getTime w")
  obtain answer w1 where a: "axios (translateRequest text from to w0 now) w0 = (answer, w1)"
    by (cases "axios (translateRequest text from to w0 now) w0")
  obtain refreshed w2 where u: "updateTokens w1 = (refreshed, w2)"
    by (cases "updateTokens w1")
  from assms have t: "fst (translateOnce JSON_parse text from to 0 w) = Resolved result"
    by (simp add: translate_def)
  then obtain response where r: "answer = Resolved response"
    by (cases answer) (simp_all add: translateOnce_first [OF g a])
  have "axios_script w0 = axios_script w"
    using g getTime_frame(1) [of w] by simp
  moreover from axios_Resolved [OF a [unfolded r]]
  obtain rest where "axios_script w0 = Inr response # rest" and s1: "axios_script w1 = rest"
    by blast
  ultimately have s: "axios_script w = Inr response # rest" by simp
  show ?thesis
  proof (cases "data_dict (data response) \<noteq> None")
    case True
    with t r have "parseResult JSON_parse (data response) text = Inr result"
      by (auto simp add: translateOnce_first [OF g a] split: sum.splits)
    moreover from True s have "accepted_response (axios_script w) = Some response"
      by (simp add: accepted_response_def)
    ultimately show ?thesis by blast
  next
    case False
    with t r u have "fst (translateOnce JSON_parse text from to (Suc 0) w2) = Resolved result"
      by (auto simp add: translateOnce_first [OF g a] split: promise.splits)
    from translateOnce_last_Resolved [OF this] obtain second others where
      2: "axios_script w2 = Inr second # others"
         "data_dict (data second) \<noteq> None \<or> data_translate (data second) \<noteq> None"
         "parseResult JSON_parse (data second) text = Inr result"
      by blast
    have "axios_script w2 = rest"
      using updateTokens_frame(1) [of w1] u s1 by simp
    with 2(1) s have "axios_script w = Inr response # Inr second # others" by simp
    with False 2(2) have "accepted_response (axios_script w) = Some second"
      by (auto simp add: accepted_response_def)
    with 2(3) show ?thesis by blast
  qed
qed

subsection \<open>The examples, evaluated\<close>

lemma example_json_truthy: "truthy (Some example_json)"
  by (simp add: truthy_def example_json_def dq_def)

lemma parse_example:
  "parseResult example_parse example_data (js ''hao'') = Inr example_result"
  using example_json_truthy
  by (simp add: parseResult_def example_data_def example_parse_def example_result_def Let_def
      index0_def truthy_def to_string_def split_slash_def match_separator_def is_space_def
      slash_def empty_result_def js_simps)

lemma example_data_dict: "data_dict example_data \<noteq> None"
  by (simp add: example_data_def)

lemma translate_example:
  "fst (translate example_parse (js ''hao'') (js ''zh-CN'') (js ''en'') answered_world)
     = Resolved example_result"
  by (simp add: translate_def translateOnce.simps getTime_def axios_def emit_def Let_def
       parse_example example_data_dict example_response_def silent_world_def answered_world_def)



subsection \<open>The result of a translation\<close>

lemma answered_world_accepted:
  "accepted_response (axios_script answered_world) = Some example_response"
  by (simp add: accepted_response_def answered_world_def silent_world_def example_response_def
        example_data_dict)



text \<open>
  C5. Every result that \<open>translate\<close> resolves with has the properties \<open>originalText\<close> and
  \<open>mainMeaning\<close>. It is the result for the response that \<open>translate\<close> accepted, and in
  that response: the pronunciation of the first suggestion is a non-empty string exactly
  when the result has \<open>sPronunciation\<close>; the \<^verbatim>\<open>examples_json\<close> of the first suggestion is
  a non-empty string exactly when the result has \<open>examples\<close>; and the \<^verbatim>\<open>abstract\<close> of the
  dictionary entry is a non-empty list exactly when the result has \<open>detailedMeanings\<close>.
\<close>

theorem translate_result_fields:
  assumes "fst (translate JSON_parse text from to w) = Resolved result"
  shows "originalText result \<noteq> None \<and> mainMeaning result \<noteq> None
         \<and> (\<exists>response. accepted_response (axios_script w) = Some response
               \<and> parseResult JSON_parse (data response) text = Inr result
               \<and> (sPronunciation result \<noteq> None)
                   = truthy (provider_pronunciation (data response))
               \<and> (examples result \<noteq> None)
                   = truthy (provider_examples_json (data response))
               \<and> (detailedMeanings result \<noteq> None)
                   = (\<exists>items. provider_abstract (data response) = Some items \<and> items \<noteq> []))"
proof -
  from translate_Resolved [OF assms] obtain response where
    r: "accepted_response (axios_script w) = Some response" and
    p: "parseResult JSON_parse (data response) text = Inr result"
    by blast
  have "originalText result \<noteq> None"
    using parseResult_Inr(1) [OF p] by simp
  moreover have "mainMeaning result \<noteq> None"
    using parseResult_Inr(2) [OF p] by auto
  moreover have "(sPronunciation result \<noteq> None)
                   = truthy (provider_pronunciation (data response))"
    using parseResult_Inr(3) [OF p] by (auto simp add: truthy_def split: option.splits)
  ultimately show ?thesis
    using r p parseResult_Inr(4) [OF p] parseResult_Inr(5) [OF p] by blast
qed

theorem translate_result_fields_witness:
  "fst (translate example_parse (js ''hao'') (js ''zh-CN'') (js ''en'') answered_world)
     = Resolved example_result
   \<and> accepted_response (axios_script answered_world) = Some example_response
   \<and> originalText example_result \<noteq> None \<and> mainMeaning example_result \<noteq> None
   \<and> sPronunciation example_result \<noteq> None
   \<and> truthy (provider_pronunciation (data example_response))
   \<and> examples example_result \<noteq> None
   \<and> truthy (provider_examples_json (data example_response))"
proof -
  have h: "fst (translate example_parse (js ''hao'') (js ''zh-CN'') (js ''en'') answered_world)
             = Resolved example_result"
    by (rule translate_example)
  from translate_result_fields [OF h] obtain response where
    "accepted_response (axios_script answered_world) = Some response" and
    f: "originalText example_result \<noteq> None" "mainMeaning example_result \<noteq> None"
       "(sPronunciation example_result \<noteq> None)
          = truthy (provider_pronunciation (data response))"
       "(examples example_result \<noteq> None)
          = truthy (provider_examples_json (data response))"
    by blast
  then have "response = example_response"
    by (simp add: answered_world_accepted)
  moreover have "sPronunciation example_result \<noteq> None" "examples example_result \<noteq> None"
    by (simp_all add: example_result_def)
  ultimately show ?thesis using f h answered_world_accepted by simp
qed



subsection \<open>requestHomePage and updateTokens\<close>

lemma last_cookie_Cons:
  "last_cookie n (c # cookies) stored
     = last_cookie n cookies (if cookie_name c = n then cookie_value c else stored)"
  by (simp add: last_cookie_def split: list.split)

lemma last_cookie_absent:
  assumes "\<forall>c\<in>set cookies. cookie_name c \<noteq> n"
  shows "last_cookie n cookies stored = stored"
proof -
  from assms have "filter (\<lambda>c. cookie_name c = n) cookies = []"
    by (simp add: filter_empty_conv)
  then show ?thesis by (simp add: last_cookie_def)
qed

lemma qtv_not_qtk: "js ''qtv'' \<noteq> js ''qtk''"
  by (simp add: js_simps)

lemma store_tokens_tokens:
  "qtk (store_tokens cookies w) = last_cookie (js ''qtk'') cookies (qtk w)"
  "qtv (store_tokens cookies w) = last_cookie (js ''qtv'') cookies (qtv w)"
proof (induction cookies arbitrary: w)
  case Nil
  {
    case 1 show ?case by (simp add: last_cookie_def)
  next
    case 2 show ?case by (simp add: last_cookie_def)
  }
next
  case (Cons c cookies)
  {
    case 1
    show ?case
      using qtv_not_qtk by (simp add: Cons.IH(1) last_cookie_Cons)
  next
    case 2
    show ?case
      using qtv_not_qtk by (simp add: Cons.IH(2) last_cookie_Cons)
  }
qed

lemma tab_wait_updates:
  assumes "\<forall>d\<in>set ds. is_update d"
  shows "tab_wait tabId calls ds = (calls @ heard tabId ds, None)"
  using assms
proof (induction ds arbitrary: calls)
  case Nil
  show ?case by simp
next
  case (Cons d ds)
  then show ?case by (cases d) simp_all
qed

lemma tab_wait_first_callback:
  assumes "\<forall>d\<in>set pre. is_update d"
    and "n < length (calls @ heard tabId pre)"
  shows "tab_wait tabId calls (pre @ Removed n lastError # post)
           = (calls @ heard tabId pre,
              Some (n, (calls @ heard tabId pre) ! n, lastError, post))"
  using assms
proof (induction pre arbitrary: calls)
  case Nil
  then show ?case by simp
next
  case (Cons d pre)
  show ?case
  proof (cases d)
    case (Updated id' st)
    show ?thesis
    proof (cases "id' = tabId \<and> st \<noteq> Loading")
      case True
      with Cons.prems Updated have "n < length ((calls @ [st]) @ heard tabId pre)"
        by simp
      with Cons.IH [of "calls @ [st]"] Cons.prems(1) Updated True show ?thesis
        by simp
    next
      case False
      with Cons.prems Updated have "n < length (calls @ heard tabId pre)"
        by auto
      with Cons.IH [of calls] Cons.prems(1) Updated False show ?thesis
        by auto
    qed
  next
    case (Removed m e)
    with Cons.prems(1) show ?thesis by simp
  qed
qed

lemma requestHomePage_unsettled:
  "tabs_script w = [] \<Longrightarrow> fst (requestHomePage w) = Pending"
  "tabs_script w = v # vs \<Longrightarrow> created v = Inl message
     \<Longrightarrow> fst (requestHomePage w) = Rejected (Message message)"
  "tabs_script w = v # vs \<Longrightarrow> created v = Inr tabId \<Longrightarrow> \<forall>d\<in>set (deliveries v). is_update d
     \<Longrightarrow> fst (requestHomePage w) = Pending"
  by (simp_all add: requestHomePage_def emit_def Let_def tab_wait_updates)

lemma requestHomePage_settled:
  assumes "tabs_script w = v # vs" and "created v = Inr tabId"
    and "deliveries v = pre @ Removed n lastError # post"
    and "\<forall>d\<in>set pre. is_update d" and "n < length (heard tabId pre)"
  shows "fst (requestHomePage w)
           = (if heard tabId pre ! n = Complete then Resolved () else Rejected Undefined)"
    and "trace (snd (requestHomePage w))
           = trace w @ [TabsCreate BASE_URL False, AddListener]
               @ replicate (length (heard tabId pre)) (TabsRemove tabId)
               @ (case lastError of None \<Rightarrow> [] | Some message \<Rightarrow> [Log message])
               @ [RemoveListener]"
    and "background (snd (requestHomePage w))
           = background w @ late_callbacks (length (heard tabId pre)) [n] post"
proof -
  from assms(4,5) have
    "tab_wait tabId [] (pre @ Removed n lastError # post)
       = (heard tabId pre, Some (n, heard tabId pre ! n, lastError, post))"
    using tab_wait_first_callback [of pre n "[]" tabId lastError post] by simp
  with assms(1,2,3) show
    "fst (requestHomePage w)
       = (if heard tabId pre ! n = Complete then Resolved () else Rejected Undefined)"
    "trace (snd (requestHomePage w))
           = trace w @ [TabsCreate BASE_URL False, AddListener]
               @ replicate (length (heard tabId pre)) (TabsRemove tabId)
               @ (case lastError of None \<Rightarrow> [] | Some message \<Rightarrow> [Log message])
               @ [RemoveListener]"
    "background (snd (requestHomePage w))
           = background w @ late_callbacks (length (heard tabId pre)) [n] post"
    by (simp_all add: requestHomePage_def emit_def Let_def split: option.split)
qed

lemma requestHomePage_loads:
  assumes "tabs_script w
             = \<lparr>created = Inr 7,
                deliveries = [Updated 7 Loading, Updated 3 Complete, Updated 7 Complete,
                              Removed 0 None]\<rparr> # vs"
  shows "fst (requestHomePage w) = Resolved ()"
  using assms by (simp add: requestHomePage_def emit_def Let_def)

lemma updateTokens_after_visit:
  assumes "fst (requestHomePage w) = Resolved u"
  shows "trace (snd (updateTokens w)) = trace (snd (requestHomePage w)) @ [CookiesGetAll BASE_URL]"
    and "fst (updateTokens w) = (if cookies_getAll_script w = [] then Pending else Resolved ())"
  using assms requestHomePage_frame(4) [of w]
  by (cases "requestHomePage w";
      simp add: updateTokens_def emit_def Let_def store_tokens_frame split: list.split)+

lemma updateTokens_background:
  "background (snd (updateTokens w)) = background (snd (requestHomePage w))"
  by (cases "requestHomePage w")
     (simp add: updateTokens_def emit_def Let_def store_tokens_frame
        split: promise.split list.split)

lemma updateTokens_outcome_lemma:
  "fst (updateTokens w) =
     (case fst (requestHomePage w) of
        Resolved u \<Rightarrow> if cookies_getAll_script w = [] then Pending else Resolved ()
      | Rejected e \<Rightarrow> Rejected e
      | Pending \<Rightarrow> Pending)"
  using requestHomePage_frame(4) [of w]
  by (cases "requestHomePage w")
     (auto simp add: updateTokens_def emit_def Let_def split: promise.split list.split)

lemma updateTokens_Resolved:
  assumes "fst (requestHomePage w) = Resolved u"
    and "cookies_getAll_script w = cookies # rest"
  shows "fst (updateTokens w) = Resolved ()"
    and "qtk (snd (updateTokens w)) = last_cookie (js ''qtk'') cookies (qtk w)"
    and "qtv (snd (updateTokens w)) = last_cookie (js ''qtv'') cookies (qtv w)"
    and "trace (snd (updateTokens w))
           = trace (snd (requestHomePage w)) @ [CookiesGetAll BASE_URL]"
    and "cookies_getAll_script (snd (updateTokens w)) = rest"
  using assms requestHomePage_frame(1,2,4) [of w]
  by (cases "requestHomePage w";
      simp add: updateTokens_def emit_def Let_def store_tokens_tokens store_tokens_frame)+

lemma updateTokens_not_Resolved:
  assumes "fst (updateTokens w) \<noteq> Resolved ()"
  shows "qtk (snd (updateTokens w)) = qtk w" and "qtv (snd (updateTokens w)) = qtv w"
  using assms requestHomePage_frame(1,2) [of w]
  by (cases "requestHomePage w";
      auto simp add: updateTokens_def emit_def Let_def split: promise.splits list.splits)+

lemma updateTokens_opens_tab:
  "\<exists>evs. trace (snd (updateTokens w)) = trace w @ TabsCreate BASE_URL False # evs"
proof -
  have "\<exists>evs. trace (snd (requestHomePage w)) = trace w @ TabsCreate BASE_URL False # evs"
    by (simp add: requestHomePage_def emit_def Let_def
          split: list.split sum.split option.split prod.split)
  then obtain evs where
    e: "trace (snd (requestHomePage w)) = trace w @ TabsCreate BASE_URL False # evs"
    by blast
  have "\<exists>more. trace (snd (updateTokens w)) = trace (snd (requestHomePage w)) @ more"
    by (cases "requestHomePage w")
       (simp add: updateTokens_def emit_def Let_def store_tokens_frame
          split: promise.split list.split)
  with e show ?thesis by auto
qed

lemma loaded_world_visit: "fst (requestHomePage loaded_world) = Resolved ()"
  by (rule requestHomePage_loads [of _ "[]"]) (simp add: loaded_world_def silent_world_def)

text \<open>
  C10. When the page visit of \<open>updateTokens\<close> has succeeded and the browser hands over its
  cookies, \<open>updateTokens\<close> resolves, whatever the cookies are. Each token ends as the value
  of the last cookie with its name; a token without a cookie of its name keeps the value
  that was stored before.
\<close>

theorem updateTokens_keeps_token_without_cookie:
  assumes "fst (requestHomePage w) = Resolved u"
    and "cookies_getAll_script w = cookies # rest"
  shows "fst (updateTokens w) = Resolved ()
         \<and> qtk (snd (updateTokens w)) = last_cookie (js ''qtk'') cookies (qtk w)
         \<and> qtv (snd (updateTokens w)) = last_cookie (js ''qtv'') cookies (qtv w)
         \<and> ((\<forall>c\<in>set cookies. cookie_name c \<noteq> js ''qtk'') \<longrightarrow> qtk (snd (updateTokens w)) = qtk w)
         \<and> ((\<forall>c\<in>set cookies. cookie_name c \<noteq> js ''qtv'') \<longrightarrow> qtv (snd (updateTokens w)) = qtv w)"
  using updateTokens_Resolved(1,2,3) [OF assms]
  by (simp add: last_cookie_absent)

theorem updateTokens_keeps_token_without_cookie_witness:
  "fst (requestHomePage loaded_world) = Resolved ()
   \<and> cookies_getAll_script loaded_world = fresh_cookies # []
   \<and> js ''qtv'' \<notin> cookie_name ` set fresh_cookies
   \<and> fst (updateTokens loaded_world) = Resolved ()
   \<and> qtk (snd (updateTokens loaded_world)) = js ''k1''
   \<and> qtv (snd (updateTokens loaded_world)) = js ''v0''"
proof -
  have c: "cookies_getAll_script loaded_world = fresh_cookies # []"
    by (simp add: loaded_world_def silent_world_def)
  have a: "js ''qtv'' \<notin> cookie_name ` set fresh_cookies"
    by (simp add: fresh_cookies_def js_simps)
  then have a': "\<forall>c\<in>set fresh_cookies. cookie_name c \<noteq> js ''qtv''"
    by (metis imageI)
  have k: "last_cookie (js ''qtk'') fresh_cookies (qtk loaded_world) = js ''k1''"
    by (simp add: last_cookie_def fresh_cookies_def js_simps)
  have v: "qtv loaded_world = js ''v0''"
    by (simp add: loaded_world_def silent_world_def)
  from updateTokens_keeps_token_without_cookie [OF loaded_world_visit c] a' k v
  have "fst (updateTokens loaded_world) = Resolved ()
        \<and> qtk (snd (updateTokens loaded_world)) = js ''k1''
        \<and> qtv (snd (updateTokens loaded_world)) = js ''v0''"
    by (simp add: last_cookie_absent)
  with loaded_world_visit c a show ?thesis by blast
qed

text \<open>
  C6, as the code has it. \<open>updateTokens\<close> first opens a tab on the provider's site that
  is not active. It fails when the tab cannot be created. Otherwise it closes the tab
  at every update of that tab whose status is not \<^verbatim>\<open>loading\<close>, until the callback of one
  of these \<^verbatim>\<open>chrome.tabs.remove\<close> calls runs. The status of the update for which that call
  was made decides: when it is not \<^verbatim>\<open>complete\<close>, \<open>updateTokens\<close> fails; when it is, the
  cookies are read, after the tab is closed, and those named \<^verbatim>\<open>qtk\<close> and \<^verbatim>\<open>qtv\<close> are
  stored. The callbacks of the other calls run later. As long as no callback runs (no
  update with another status than \<^verbatim>\<open>loading\<close> arrives for the tab, or the browser never
  answers), \<open>updateTokens\<close> neither completes nor fails.
\<close>

theorem updateTokens_outcome:
  "(tabs_script w = [] \<longrightarrow> fst (updateTokens w) = Pending)
   \<and> (\<forall>v vs message.
         tabs_script w = v # vs \<longrightarrow> created v = Inl message
         \<longrightarrow> fst (updateTokens w) = Rejected (Message message))
   \<and> (\<forall>v vs tabId.
         tabs_script w = v # vs \<longrightarrow> created v = Inr tabId
         \<longrightarrow> (\<forall>d\<in>set (deliveries v). is_update d)
         \<longrightarrow> fst (updateTokens w) = Pending)
   \<and> (\<forall>v vs tabId pre n lastError post.
         tabs_script w = v # vs \<longrightarrow> created v = Inr tabId
         \<longrightarrow> deliveries v = pre @ Removed n lastError # post
         \<longrightarrow> (\<forall>d\<in>set pre. is_update d) \<longrightarrow> n < length (heard tabId pre)
         \<longrightarrow> (heard tabId pre ! n \<noteq> Complete \<longrightarrow> fst (updateTokens w) = Rejected Undefined)
           \<and> (heard tabId pre ! n = Complete \<longrightarrow>
                fst (updateTokens w)
                  = (if cookies_getAll_script w = [] then Pending else Resolved ())
                \<and> trace (snd (updateTokens w))
                    = trace w @ [TabsCreate BASE_URL False, AddListener]
                        @ replicate (length (heard tabId pre)) (TabsRemove tabId)
                        @ (case lastError of None \<Rightarrow> [] | Some message \<Rightarrow> [Log message])
                        @ [RemoveListener, CookiesGetAll BASE_URL]
                \<and> (\<forall>cookies rest.
                      cookies_getAll_script w = cookies # rest
                      \<longrightarrow> qtk (snd (updateTokens w)) = last_cookie (js ''qtk'') cookies (qtk w)
                        \<and> qtv (snd (updateTokens w)) = last_cookie (js ''qtv'') cookies (qtv w)))
           \<and> background (snd (updateTokens w))
               = background w @ late_callbacks (length (heard tabId pre)) [n] post)
   \<and> (\<exists>evs. trace (snd (updateTokens w)) = trace w @ TabsCreate BASE_URL False # evs)"
proof (intro conjI allI impI)
  assume "tabs_script w = []"
  then show "fst (updateTokens w) = Pending"
    by (simp add: updateTokens_outcome_lemma requestHomePage_unsettled(1))
next
  fix v vs message
  assume "tabs_script w = v # vs" "created v = Inl message"
  then show "fst (updateTokens w) = Rejected (Message message)"
    by (simp add: updateTokens_outcome_lemma requestHomePage_unsettled(2))
next
  fix v vs tabId
  assume "tabs_script w = v # vs" "created v = Inr tabId" "\<forall>d\<in>set (deliveries v). is_update d"
  then show "fst (updateTokens w) = Pending"
    by (simp add: updateTokens_outcome_lemma requestHomePage_unsettled(3))
next
  fix v vs tabId pre n lastError post
  assume a: "tabs_script w = v # vs" "created v = Inr tabId"
    "deliveries v = pre @ Removed n lastError # post"
    "\<forall>d\<in>set pre. is_update d" "n < length (heard tabId pre)"
  note visit = requestHomePage_settled [OF a]
  show "background (snd (updateTokens w))
          = background w @ late_callbacks (length (heard tabId pre)) [n] post"
    by (simp add: updateTokens_background visit(3))
  {
    assume "heard tabId pre ! n \<noteq> Complete"
    then show "fst (updateTokens w) = Rejected Undefined"
      by (simp add: updateTokens_outcome_lemma visit(1))
  }
  {
    assume "heard tabId pre ! n = Complete"
    then have r: "fst (requestHomePage w) = Resolved ()"
      by (simp add: visit(1))
    show "fst (updateTokens w) = (if cookies_getAll_script w = [] then Pending else Resolved ())"
      by (rule updateTokens_after_visit(2) [OF r])
    show "trace (snd (updateTokens w))
            = trace w @ [TabsCreate BASE_URL False, AddListener]
                @ replicate (length (heard tabId pre)) (TabsRemove tabId)
                @ (case lastError of None \<Rightarrow> [] | Some message \<Rightarrow> [Log message])
                @ [RemoveListener, CookiesGetAll BASE_URL]"
      by (simp add: updateTokens_after_visit(1) [OF r] visit(2))
    fix cookies rest
    assume c: "cookies_getAll_script w = cookies # rest"
    show "qtk (snd (updateTokens w)) = last_cookie (js ''qtk'') cookies (qtk w)"
      by (rule updateTokens_Resolved(2) [OF r c])
    show "qtv (snd (updateTokens w)) = last_cookie (js ''qtv'') cookies (qtv w)"
      by (rule updateTokens_Resolved(3) [OF r c])
  }
next
  show "\<exists>evs. trace (snd (updateTokens w)) = trace w @ TabsCreate BASE_URL False # evs"
    by (rule updateTokens_opens_tab)
qed

theorem updateTokens_outcome_witness:
  "fst (updateTokens twice_world) = Resolved ()
   \<and> trace (snd (updateTokens twice_world))
       = [TabsCreate BASE_URL False, AddListener, TabsRemove 7, TabsRemove 7, RemoveListener,
          CookiesGetAll BASE_URL]
   \<and> background (snd (updateTokens twice_world))
       = [Log (js ''No tab with id: 7.''), RemoveListener]
   \<and> qtk (snd (updateTokens twice_world)) = last_cookie (js ''qtk'') fresh_cookies (js ''k0'')"
proof -
  define v where
    "v = \<lparr>created = Inr (7::nat),
          deliveries = [Updated 7 Complete, Updated 7 Complete, Removed 0 None,
                        Removed 1 (Some (js ''No tab with id: 7.''))]\<rparr>"
  have 1: "tabs_script twice_world = v # []"
    by (simp add: twice_world_def silent_world_def v_def)
  have 2: "created v = Inr 7"
    by (simp add: v_def)
  have 3: "deliveries v
             = [Updated 7 Complete, Updated 7 Complete] @ Removed 0 None
                 # [Removed 1 (Some (js ''No tab with id: 7.''))]"
    by (simp add: v_def)
  have 4: "\<forall>d\<in>set [Updated 7 Complete, Updated 7 Complete]. is_update d"
    by simp
  have 5: "0 < length (heard 7 [Updated 7 Complete, Updated 7 Complete])"
    by simp
  have 6: "cookies_getAll_script twice_world = fresh_cookies # []"
    "trace twice_world = []" "background twice_world = []" "qtk twice_world = js ''k0''"
    by (simp_all add: twice_world_def silent_world_def)
  from updateTokens_outcome [of twice_world] 1 2 3 4 5
  have "(heard 7 [Updated 7 Complete, Updated 7 Complete] ! 0 = Complete \<longrightarrow>
           fst (updateTokens twice_world)
             = (if cookies_getAll_script twice_world = [] then Pending else Resolved ())
           \<and> trace (snd (updateTokens twice_world))
               = trace twice_world @ [TabsCreate BASE_URL False, AddListener]
                   @ replicate (length (heard 7 [Updated 7 Complete, Updated 7 Complete]))
                       (TabsRemove 7)
                   @ (case None of None \<Rightarrow> [] | Some message \<Rightarrow> [Log message])
                   @ [RemoveListener, CookiesGetAll BASE_URL]
           \<and> (\<forall>cookies rest.
                 cookies_getAll_script twice_world = cookies # rest
                 \<longrightarrow> qtk (snd (updateTokens twice_world))
                       = last_cookie (js ''qtk'') cookies (qtk twice_world)
                   \<and> qtv (snd (updateTokens twice_world))
                       = last_cookie (js ''qtv'') cookies (qtv twice_world)))
         \<and> background (snd (updateTokens twice_world))
             = background twice_world
                 @ late_callbacks (length (heard 7 [Updated 7 Complete, Updated 7 Complete])) [0]
                     [Removed 1 (Some (js ''No tab with id: 7.''))]"
    by blast
  with 6 show ?thesis
    by (simp add: numeral_2_eq_2)
qed

text \<open>
  The tab of \<open>loading_world\<close> never reaches a loaded state, and \<open>updateTokens\<close> does not
  fail: its promise is never settled.
\<close>

theorem updateTokens_loading_counterexample:
  "tabs_script loading_world = [\<lparr>created = Inr 7, deliveries = [Updated 7 Loading]\<rparr>]
   \<and> fst (updateTokens loading_world) = Pending"
  by (simp add: updateTokens_outcome_lemma requestHomePage_def emit_def Let_def
        loading_world_def silent_world_def)

subsection \<open>The retry of translate\<close>

lemma axios_answer:
  assumes "axios_script w = Inr response # rest"
  shows "fst (axios req w) = Resolved response"
  using assms by (simp add: axios_def emit_def Let_def)

lemma sent_after_first_request:
  assumes "getTime w = (now, w0)"
    and "axios (translateRequest text from to w0 now) w0 = (answer, w1)"
  shows "sent (trace w1) = sent (trace w) @ [translateRequest text from to w now]"
proof -
  have "trace w1 = trace w0 @ [Request (translateRequest text from to w0 now)]"
    using axios_trace [of "translateRequest text from to w0 now" w0] assms(2) by simp
  moreover have "trace w0 = trace w"
    using getTime_frame(2) [of w] assms(1) by simp
  moreover have "translateRequest text from to w0 now = translateRequest text from to w now"
    using translateRequest_getTime [of "text" "from" "to" w now] assms(1) by simp
  ultimately show ?thesis by (simp add: sent_append)
qed

lemma translateOnce_last_ApiError:
  assumes "axios_script w = Inr response # rest"
    and "data_dict (data response) = None"
    and "data_translate (data response) = None"
  shows "fst (translateOnce JSON_parse text from to (Suc 0) w)
           = Rejected (ApiError (js ''API_ERR'') (status response)
               (js ''Translate failed, please contact developers to report problem.'')
               (Inl response))"
proof -
  obtain now w0 where g: "getTime w = (now, w0)" by (cases "getTime w")
  obtain answer w1 where a: "axios (translateRequest text from to w0 now) w0 = (answer, w1)"
    by (cases "axios (translateRequest text from to w0 now) w0")
  have "axios_script w0 = Inr response # rest"
    using g getTime_frame(1) [of w] assms(1) by simp
  from axios_answer [OF this, of "translateRequest text from to w0 now"] a
  have "answer = Resolved response" by simp
  with assms(2,3) show ?thesis
    by (simp add: translateOnce_last [OF g a])
qed

text \<open>
  C1, as the code has it. When the first response has no \<^verbatim>\<open>dict\<close>, \<open>translate\<close> runs
  \<open>updateTokens\<close>. If that fails, \<open>translate\<close> fails with the same value, and if it never
  completes, neither does \<open>translate\<close>: in both cases the first request is the only one.
  If it succeeds, exactly one more request is sent, with the tokens as \<open>updateTokens\<close>
  left them, and a response to it with neither \<^verbatim>\<open>dict\<close> nor \<^verbatim>\<open>translate\<close> makes
  \<open>translate\<close> reject with the structured error that holds the status of that response
  and the response itself.
\<close>

theorem translate_retries_once_after_refresh:
  assumes "getTime w = (now, w0)"
    and "axios (translateRequest text from to w0 now) w0 = (Resolved response1, w1)"
    and "data_dict (data response1) = None"
    and "updateTokens w1 = (refreshed, w2)"
  shows "sent (trace w2) = sent (trace w) @ [translateRequest text from to w now]
       \<and> (\<forall>e. refreshed = Rejected e \<longrightarrow> translate JSON_parse text from to w = (Rejected e, w2))
       \<and> (refreshed = Pending \<longrightarrow> translate JSON_parse text from to w = (Pending, w2))
       \<and> (refreshed = Resolved () \<longrightarrow>
            sent (trace (snd (translate JSON_parse text from to w)))
              = sent (trace w) @ [translateRequest text from to w now,
                                  translateRequest text from to w2 (fst (getTime w2))]
            \<and> (\<forall>response2 rest.
                  axios_script w2 = Inr response2 # rest
                  \<longrightarrow> data_dict (data response2) = None
                  \<longrightarrow> data_translate (data response2) = None
                  \<longrightarrow> fst (translate JSON_parse text from to w)
                       = Rejected (ApiError (js ''API_ERR'') (status response2)
                           (js ''Translate failed, please contact developers to report problem.'')
                           (Inl response2))))"
proof -
  have first: "sent (trace w1) = sent (trace w) @ [translateRequest text from to w now]"
    by (rule sent_after_first_request [OF assms(1,2)])
  have s2: "sent (trace w2) = sent (trace w) @ [translateRequest text from to w now]"
    using updateTokens_frame(4) [of w1] assms(4) first by simp
  have unfold: "translate JSON_parse text from to w =
      (case refreshed of
         Resolved u \<Rightarrow> translateOnce JSON_parse text from to (Suc 0) w2
       | Rejected e \<Rightarrow> (Rejected e, w2)
       | Pending \<Rightarrow> (Pending, w2))"
    using assms(3,4)
    by (simp add: translate_def translateOnce_first [OF assms(1,2)] split: promise.split)
  have retried: "refreshed = Resolved () \<Longrightarrow>
      sent (trace (snd (translate JSON_parse text from to w)))
        = sent (trace w) @ [translateRequest text from to w now,
                            translateRequest text from to w2 (fst (getTime w2))]"
    using s2 by (simp add: unfold translateOnce_last_sent)
  have failed: "\<And>response2 rest. refreshed = Resolved () \<Longrightarrow>
      axios_script w2 = Inr response2 # rest \<Longrightarrow> data_dict (data response2) = None \<Longrightarrow>
      data_translate (data response2) = None \<Longrightarrow>
      fst (translate JSON_parse text from to w)
        = Rejected (ApiError (js ''API_ERR'') (status response2)
            (js ''Translate failed, please contact developers to report problem.'')
            (Inl response2))"
    by (simp add: unfold translateOnce_last_ApiError)
  from s2 retried failed show ?thesis
    by (auto simp add: unfold)
qed

lemma empty_data_fields:
  "data_dict (data failed_response) = None" "data_translate (data failed_response) = None"
  "data_dict (data refused_response) = None" "data_translate (data refused_response) = None"
  "status refused_response = 202"
  by (simp_all add: failed_response_def refused_response_def empty_data_def)

theorem translate_retries_once_after_refresh_witness:
  "fst (translate example_parse (js ''hao'') (js ''zh-CN'') (js ''en'') expired_world)
     = Rejected (ApiError (js ''API_ERR'') 202
         (js ''Translate failed, please contact developers to report problem.'')
         (Inl refused_response))
   \<and> length (sent (trace (snd (translate example_parse (js ''hao'') (js ''zh-CN'') (js ''en'')
         expired_world)))) = 2"
proof -
  define now where "now = fst (getTime expired_world)"
  define w0 where "w0 = snd (getTime expired_world)"
  define req where "req = translateRequest (js ''hao'') (js ''zh-CN'') (js ''en'') w0 now"
  define w1 where "w1 = snd (axios req w0)"
  define refreshed where "refreshed = fst (updateTokens w1)"
  define w2 where "w2 = snd (updateTokens w1)"
  have g: "getTime expired_world = (now, w0)"
    by (simp add: now_def w0_def)
  have s0: "axios_script w0 = Inr failed_response # [Inr refused_response]"
    by (simp add: w0_def getTime_frame expired_world_def)
  have a: "axios (translateRequest (js ''hao'') (js ''zh-CN'') (js ''en'') w0 now) w0
             = (Resolved failed_response, w1)"
    using axios_answer [OF s0, of req] by (simp add: w1_def req_def prod_eq_iff)
  have u: "updateTokens w1 = (refreshed, w2)"
    by (simp add: refreshed_def w2_def)
  have scripts:
    "tabs_script w1
       = \<lparr>created = Inr 7,
          deliveries = [Updated 7 Loading, Updated 3 Complete, Updated 7 Complete,
                        Removed 0 None]\<rparr> # []"
    "cookies_getAll_script w1 = [fresh_cookies]"
    by (simp_all add: w1_def w0_def axios_def getTime_def emit_def Let_def expired_world_def
          loaded_world_def silent_world_def)
  have r: "refreshed = Resolved ()"
    by (simp add: refreshed_def updateTokens_outcome_lemma
          requestHomePage_loads [OF scripts(1)] scripts(2))
  have s2: "axios_script w2 = Inr refused_response # []"
    using axios_Resolved [OF a] s0 updateTokens_frame(1) [of w1] by (simp add: w2_def)
  have t: "trace expired_world = []"
    by (simp add: expired_world_def loaded_world_def silent_world_def)
  from translate_retries_once_after_refresh
    [OF g a empty_data_fields(1) u, of example_parse] r s2 empty_data_fields(3,4,5) t
  show ?thesis by simp
qed

text \<open>
  In \<open>blocked_world\<close> the first response lacks the fields, but the tab for the refresh
  cannot be created: \<open>translate\<close> sends no second request, and what it rejects with is
  the message of the browser, not the structured error.
\<close>

theorem translate_refresh_fails_counterexample:
  "axios_script blocked_world = [Inr failed_response, Inr example_response]
   \<and> data_dict (data failed_response) = None
   \<and> data_translate (data failed_response) = None
   \<and> fst (translate example_parse (js ''hao'') (js ''zh-CN'') (js ''en'') blocked_world)
       = Rejected (Message (js ''No current window''))
   \<and> length (sent (trace (snd (translate example_parse (js ''hao'') (js ''zh-CN'') (js ''en'')
         blocked_world)))) = 1"
  by (simp add: translate_def translateOnce.simps getTime_def axios_def emit_def Let_def
        updateTokens_def requestHomePage_def MAX_RETRY_def empty_data_fields
        blocked_world_def silent_world_def)

subsection \<open>detect\<close>

lemma detect_codes:
  "to_string (Map_get LAN_TO_CODE (js ''auto'')) = js ''auto''"
  "to_string (Map_get LAN_TO_CODE (js ''zh-CN'')) = js ''zh''"
  by (simp_all add: to_string_def Map_get_def LAN_TO_CODE_eq LANGUAGES_def js_simps)

text \<open>A text without surrogate code units is sent as it is.\<close>

lemma USVString_plain:
  assumes "\<forall>c\<in>set s. \<not> is_leading c \<and> \<not> is_trailing c"
  shows "USVString s = s"
  using assms by (induction s rule: USVString.induct) simp_all

lemma detect_params:
  "URLSearchParams [(js ''source'', js ''auto''), (js ''target'', js ''zh''),
                    (js ''sourceText'', text)]
     = [(js ''source'', js ''auto''), (js ''target'', js ''zh''),
        (js ''sourceText'', USVString text)]"
  by (simp add: URLSearchParams_def is_leading_def is_trailing_def js_simps)

text \<open>
  C8. \<open>detect\<close> sends one request and nothing else: its source parameter is the provider's
  code of \<^verbatim>\<open>"auto"\<close>, its target parameter the code of \<^verbatim>\<open>"zh-CN"\<close>, whatever the text is
  (the text itself goes as the scalar value string that \<^verbatim>\<open>URLSearchParams\<close> makes of it).
  When the response has a \<^verbatim>\<open>translate\<close> object, \<open>detect\<close> resolves with what \<open>CODE_TO_LAN\<close>
  holds for the source code reported there.
\<close>

theorem detect_single_request:
  "trace (snd (detect text w)) = trace w @ [Request (detectRequest text)]
   \<and> params (detectRequest text)
       = [(js ''source'', js ''auto''), (js ''target'', js ''zh''),
          (js ''sourceText'', USVString text)]
   \<and> Map_get LAN_TO_CODE (js ''auto'') = Some (js ''auto'')
   \<and> Map_get LAN_TO_CODE (js ''zh-CN'') = Some (js ''zh'')
   \<and> (\<forall>response rest tr code.
         axios_script w = Inr response # rest \<longrightarrow> data_translate (data response) = Some tr
         \<longrightarrow> source tr = Some code
         \<longrightarrow> fst (detect text w) = Resolved (Map_get CODE_TO_LAN code))"
proof (intro conjI allI impI)
  show "trace (snd (detect text w)) = trace w @ [Request (detectRequest text)]"
    using axios_trace [of "detectRequest text" w]
    by (cases "axios (detectRequest text) w")
       (auto simp add: detect_def Let_def split: promise.split option.split)
  show "params (detectRequest text)
       = [(js ''source'', js ''auto''), (js ''target'', js ''zh''),
          (js ''sourceText'', USVString text)]"
    by (simp add: detectRequest_def detect_codes detect_params)
  show "Map_get LAN_TO_CODE (js ''auto'') = Some (js ''auto'')"
    by (simp add: Map_get_def LAN_TO_CODE_eq LANGUAGES_def js_simps)
  show "Map_get LAN_TO_CODE (js ''zh-CN'') = Some (js ''zh'')"
    by (simp add: Map_get_def LAN_TO_CODE_eq LANGUAGES_def js_simps)
next
  fix response rest tr code
  assume "axios_script w = Inr response # rest" "data_translate (data response) = Some tr"
    "source tr = Some code"
  then show "fst (detect text w) = Resolved (Map_get CODE_TO_LAN code)"
    by (simp add: detect_def axios_def emit_def Let_def)
qed

theorem detect_single_request_witness:
  "axios_script answered_world = Inr example_response # []
   \<and> trace (snd (detect (js ''hao'') answered_world)) = [Request (detectRequest (js ''hao''))]
   \<and> fst (detect (js ''hao'') answered_world) = Resolved (Some (js ''zh-CN''))"
proof -
  have s: "axios_script answered_world = Inr example_response # []"
    and t: "trace answered_world = []"
    by (simp_all add: answered_world_def silent_world_def)
  have d: "data_translate (data example_response)
             = Some \<lparr>source = Some (js ''zh''),
                      records = Some [\<lparr>sourceText = None,
                                       targetText = Some (js ''good / fine/ nice'')\<rparr>]\<rparr>"
    by (simp add: example_response_def example_data_def)
  have c: "Map_get CODE_TO_LAN (js ''zh'') = Some (js ''zh-CN'')"
    by (simp add: Map_get_def CODE_TO_LAN_eq LANGUAGES_def js_simps)
  from detect_single_request [of "js ''hao''" answered_world] s t d c
  show ?thesis by simp
qed

subsection \<open>pronounce\<close>

lemma requestHomePage_extends:
  "\<exists>evs. trace (snd (requestHomePage w)) = trace w @ evs \<and> AudioPause \<notin> set evs"
  by (simp add: requestHomePage_def emit_def Let_def
        split: list.split sum.split option.split prod.split)

lemma pronounceAttempt_frame:
  "qtk (snd (pronounceAttempt enc text language w)) = qtk w"
  "qtv (snd (pronounceAttempt enc text language w)) = qtv w"
  "cookies_getAll_script (snd (pronounceAttempt enc text language w)) = cookies_getAll_script w"
  by (simp_all add: pronounceAttempt_def emit_def Let_def
        split: list.split sum.split option.split prod.split)

lemma pronounceAttempt_trace:
  "\<exists>evs. trace (snd (pronounceAttempt enc text language w))
           = trace w @ CookiesGet BASE_URL (js ''fy_guid'') # evs
         \<and> AudioPause \<notin> set evs \<and> guid_reads evs = 0 \<and> CookiesGetAll u \<notin> set evs"
  by (simp add: pronounceAttempt_def emit_def Let_def
        split: list.split sum.split option.split prod.split)

lemma pronounceAttempt_plays:
  assumes "cookies_get_script w = Some cookie # rest" and "cookie_value cookie \<noteq> []"
    and "enc text = Inr encoded"
  shows "trace (snd (pronounceAttempt enc text language w))
           = trace w @ [CookiesGet BASE_URL (js ''fy_guid''),
                        AudioSetSrc (BASE_URL @ js ''/api/tts?platform=PC_Website&lang=''
                          @ to_string (Map_get LAN_TO_CODE language) @ js ''&text='' @ encoded
                          @ js ''&guid='' @ cookie_value cookie),
                        AudioPlay]"
  using assms
  by (simp add: pronounceAttempt_def emit_def Let_def truthy_def to_string_def
        split: list.split option.split prod.split)

lemma pronounceOnce_last:
  assumes "pronounceAttempt enc text language w = (attempt, w1)"
  shows "pronounceOnce enc text language (Suc 0) w =
           (case attempt of
              Rejected error \<Rightarrow>
                (Rejected (ApiError (js ''API_ERR'') 0
                   (js ''Pronounce failed, please contact developers to report problem.'')
                   (Inr error)), w1)
            | Resolved u \<Rightarrow> (Resolved u, w1)
            | Pending \<Rightarrow> (Pending, w1))"
  using assms
  by (subst pronounceOnce.simps) (simp add: MAX_RETRY_def split: promise.split)

lemma pronounceOnce_first:
  assumes "pronounceAttempt enc text language w = (attempt, w1)"
  shows "pronounceOnce enc text language 0 w =
           (case attempt of
              Rejected error \<Rightarrow>
                (case requestHomePage w1 of
                   (Resolved u, w2) \<Rightarrow> pronounceOnce enc text language (Suc 0) w2
                 | (Rejected e, w2) \<Rightarrow> (Rejected e, w2)
                 | (Pending, w2) \<Rightarrow> (Pending, w2))
            | Resolved u \<Rightarrow> (Resolved u, w1)
            | Pending \<Rightarrow> (Pending, w1))"
  using assms
  by (subst pronounceOnce.simps) (simp add: MAX_RETRY_def split: promise.split prod.split)

lemma pronounceOnce_last_world:
  "snd (pronounceOnce enc text language (Suc 0) w) = snd (pronounceAttempt enc text language w)"
  by (cases "pronounceAttempt enc text language w")
     (simp add: pronounceOnce_last split: promise.split)

lemma pronounceOnce_first_extends:
  "\<exists>more. trace (snd (pronounceOnce enc text language 0 w))
            = trace (snd (pronounceAttempt enc text language w)) @ more
          \<and> AudioPause \<notin> set more"
proof -
  obtain attempt w1 where a: "pronounceAttempt enc text language w = (attempt, w1)"
    by (cases "pronounceAttempt enc text language w")
  obtain visited w2 where v: "requestHomePage w1 = (visited, w2)"
    by (cases "requestHomePage w1")
  from requestHomePage_extends [of w1] v obtain evs where
    e: "trace w2 = trace w1 @ evs" "AudioPause \<notin> set evs"
    by auto
  from pronounceAttempt_trace [of enc "text" language w2] obtain evs' where
    e': "trace (snd (pronounceAttempt enc text language w2))
           = trace w2 @ CookiesGet BASE_URL (js ''fy_guid'') # evs'" "AudioPause \<notin> set evs'"
    by auto
  show ?thesis
  proof (cases attempt)
    case (Rejected error)
    show ?thesis
    proof (cases visited)
      case (Resolved u)
      with Rejected a v e e' show ?thesis
        by (simp add: pronounceOnce_first [OF a] pronounceOnce_last_world)
    next
      case (Rejected e)
      with \<open>attempt = Rejected error\<close> a v e show ?thesis
        by (simp add: pronounceOnce_first [OF a])
    next
      case Pending
      with Rejected a v e show ?thesis
        by (simp add: pronounceOnce_first [OF a])
    qed
  qed (simp_all add: pronounceOnce_first [OF a] a)
qed

lemma stopPronounce_playing:
  assumes "\<not> audio_paused w"
  shows "trace (stopPronounce w) = trace w @ [AudioPause]"
    and "cookies_get_script (stopPronounce w) = cookies_get_script w"
  using assms by (simp_all add: stopPronounce_def emit_def)

text \<open>
  C7. When \<open>pronounce\<close> is called while the audio element is not paused, the first thing
  it does is to pause it, and it pauses only once: whatever else the call does comes
  after. When the \<^verbatim>\<open>fy_guid\<close> cookie is there and the text can be encoded, the next
  things are the read of the cookie, the assignment of the new source and the start of
  the playback, in this order.
\<close>

theorem pronounce_pauses_first:
  assumes "\<not> audio_paused w"
  shows "(\<exists>evs. trace (snd (pronounce enc text language speed w)) = trace w @ AudioPause # evs
                \<and> AudioPause \<notin> set evs)
       \<and> (\<forall>cookie rest encoded.
             cookies_get_script w = Some cookie # rest \<longrightarrow> cookie_value cookie \<noteq> []
             \<longrightarrow> enc text = Inr encoded
             \<longrightarrow> (\<exists>more. trace (snd (pronounce enc text language speed w))
                    = trace w @ [AudioPause, CookiesGet BASE_URL (js ''fy_guid''),
                        AudioSetSrc (BASE_URL @ js ''/api/tts?platform=PC_Website&lang=''
                          @ to_string (Map_get LAN_TO_CODE language) @ js ''&text='' @ encoded
                          @ js ''&guid='' @ cookie_value cookie),
                        AudioPlay] @ more))"
proof (intro conjI allI impI)
  from pronounceOnce_first_extends [of enc "text" language "stopPronounce w"]
  obtain more where
    m: "trace (snd (pronounce enc text language speed w))
          = trace (snd (pronounceAttempt enc text language (stopPronounce w))) @ more"
       "AudioPause \<notin> set more"
    by (auto simp add: pronounce_def)
  from pronounceAttempt_trace [of enc "text" language "stopPronounce w"]
  obtain evs where
    e: "trace (snd (pronounceAttempt enc text language (stopPronounce w)))
          = trace (stopPronounce w) @ CookiesGet BASE_URL (js ''fy_guid'') # evs"
       "AudioPause \<notin> set evs"
    by auto
  from m e stopPronounce_playing(1) [OF assms]
  have "trace (snd (pronounce enc text language speed w))
          = trace w @ AudioPause # (CookiesGet BASE_URL (js ''fy_guid'') # evs @ more)
        \<and> AudioPause \<notin> set (CookiesGet BASE_URL (js ''fy_guid'') # evs @ more)"
    by simp
  then show "\<exists>evs. trace (snd (pronounce enc text language speed w)) = trace w @ AudioPause # evs
                \<and> AudioPause \<notin> set evs"
    by blast
next
  fix cookie rest encoded
  assume c: "cookies_get_script w = Some cookie # rest" "cookie_value cookie \<noteq> []"
    "enc text = Inr encoded"
  from pronounceOnce_first_extends [of enc "text" language "stopPronounce w"]
  obtain more where
    m: "trace (snd (pronounce enc text language speed w))
          = trace (snd (pronounceAttempt enc text language (stopPronounce w))) @ more"
    by (auto simp add: pronounce_def)
  have "cookies_get_script (stopPronounce w) = Some cookie # rest"
    using stopPronounce_playing(2) [OF assms] c(1) by simp
  from pronounceAttempt_plays [of "stopPronounce w" cookie rest enc "text" encoded language,
      OF this c(2,3)] m
    stopPronounce_playing(1) [OF assms]
  show "\<exists>more. trace (snd (pronounce enc text language speed w))
                    = trace w @ [AudioPause, CookiesGet BASE_URL (js ''fy_guid''),
                        AudioSetSrc (BASE_URL @ js ''/api/tts?platform=PC_Website&lang=''
                          @ to_string (Map_get LAN_TO_CODE language) @ js ''&text='' @ encoded
                          @ js ''&guid='' @ cookie_value cookie),
                        AudioPlay] @ more"
    by simp
qed

theorem pronounce_pauses_first_witness:
  "\<not> audio_paused playing_world
   \<and> fst (pronounce plain_encode (js ''hao'') (js ''zh-CN'') (js ''fast'') playing_world)
       = Resolved ()
   \<and> trace (snd (pronounce plain_encode (js ''hao'') (js ''zh-CN'') (js ''fast'') playing_world))
       = [AudioPause, CookiesGet BASE_URL (js ''fy_guid''),
          AudioSetSrc (js ''https://fanyi.qq.com/api/tts?platform=PC_Website&lang=zh&text=hao&guid=g1''),
          AudioPlay]"
proof -
  have p: "\<not> audio_paused playing_world"
    by (simp add: playing_world_def silent_world_def)
  have r: "fst (pronounce plain_encode (js ''hao'') (js ''zh-CN'') (js ''fast'') playing_world)
             = Resolved ()"
    by (simp add: pronounce_def pronounceOnce.simps pronounceAttempt_def stopPronounce_def
          emit_def Let_def truthy_def plain_encode_def playing_world_def silent_world_def
          js_simps)
  have t: "trace (snd (pronounce plain_encode (js ''hao'') (js ''zh-CN'') (js ''fast'')
             playing_world))
           = [AudioPause, CookiesGet BASE_URL (js ''fy_guid''),
              AudioSetSrc (js ''https://fanyi.qq.com/api/tts?platform=PC_Website&lang=zh&text=hao&guid=g1''),
              AudioPlay]"
    by (simp add: pronounce_def pronounceOnce.simps pronounceAttempt_def stopPronounce_def
          emit_def Let_def truthy_def to_string_def plain_encode_def playing_world_def
          silent_world_def BASE_URL_def Map_get_def LAN_TO_CODE_eq LANGUAGES_def js_simps)
  from pronounce_pauses_first [OF p, of plain_encode "js ''hao''" "js ''zh-CN''" "js ''fast''"]
  obtain evs where
    "trace (snd (pronounce plain_encode (js ''hao'') (js ''zh-CN'') (js ''fast'') playing_world))
       = trace playing_world @ AudioPause # evs"
    by blast
  with p r t show ?thesis by simp
qed

lemma stopPronounce_frame:
  "qtk (stopPronounce w) = qtk w" "qtv (stopPronounce w) = qtv w"
  "cookies_getAll_script (stopPronounce w) = cookies_getAll_script w"
  "guid_reads (trace (stopPronounce w)) = guid_reads (trace w)"
  by (simp_all add: stopPronounce_def emit_def guid_reads_append)

lemma pronounceAttempt_guid_reads:
  "guid_reads (trace (snd (pronounceAttempt enc text language w))) = Suc (guid_reads (trace w))"
  using pronounceAttempt_trace [of enc "text" language w BASE_URL]
  by (auto simp add: guid_reads_append)

lemma pronounce_keeps_tokens:
  "qtk (snd (pronounce enc text language speed w)) = qtk w"
  "qtv (snd (pronounce enc text language speed w)) = qtv w"
  "cookies_getAll_script (snd (pronounce enc text language speed w)) = cookies_getAll_script w"
proof -
  obtain attempt w1 where
    a: "pronounceAttempt enc text language (stopPronounce w) = (attempt, w1)"
    by (cases "pronounceAttempt enc text language (stopPronounce w)")
  obtain visited w2 where v: "requestHomePage w1 = (visited, w2)"
    by (cases "requestHomePage w1")
  have 1: "qtk w1 = qtk w" "qtv w1 = qtv w" "cookies_getAll_script w1 = cookies_getAll_script w"
    using pronounceAttempt_frame [of enc "text" language "stopPronounce w"] a
    by (simp_all add: stopPronounce_frame)
  have 2: "qtk w2 = qtk w" "qtv w2 = qtv w" "cookies_getAll_script w2 = cookies_getAll_script w"
    using requestHomePage_frame(1,2,4) [of w1] v 1 by simp_all
  have 3: "qtk (snd (pronounceAttempt enc text language w2)) = qtk w"
    "qtv (snd (pronounceAttempt enc text language w2)) = qtv w"
    "cookies_getAll_script (snd (pronounceAttempt enc text language w2)) = cookies_getAll_script w"
    using pronounceAttempt_frame [of enc "text" language w2] 2 by simp_all
  show "qtk (snd (pronounce enc text language speed w)) = qtk w"
    using 1 2 3 v
    by (simp add: pronounce_def pronounceOnce_first [OF a] pronounceOnce_last_world
          split: promise.split)
  show "qtv (snd (pronounce enc text language speed w)) = qtv w"
    using 1 2 3 v
    by (simp add: pronounce_def pronounceOnce_first [OF a] pronounceOnce_last_world
          split: promise.split)
  show "cookies_getAll_script (snd (pronounce enc text language speed w))
          = cookies_getAll_script w"
    using 1 2 3 v
    by (simp add: pronounce_def pronounceOnce_first [OF a] pronounceOnce_last_world
          split: promise.split)
qed

text \<open>
  C3, as the code has it. When the first attempt of \<open>pronounce\<close> fails, the adapter visits
  the provider's page again (\<open>requestHomePage\<close>, not \<open>updateTokens\<close>: the cookies of the
  tokens are not read and \<open>qtk\<close> and \<open>qtv\<close> stay as they are). If the visit fails,
  \<open>pronounce\<close> fails with the same value, and if it never completes, neither does
  \<open>pronounce\<close>: in both cases there is no second attempt. If the visit succeeds there is
  exactly one more attempt, and when it fails too, \<open>pronounce\<close> rejects with the structured
  error: the tag \<^verbatim>\<open>API_ERR\<close>, the code 0, a message, and what the second attempt failed
  with.
\<close>

theorem pronounce_retries_once_after_page_visit:
  assumes "pronounceAttempt enc text language (stopPronounce w) = (Rejected error, w1)"
    and "requestHomePage w1 = (visited, w2)"
  shows "guid_reads (trace w2) = guid_reads (trace w) + 1
       \<and> (\<forall>e. visited = Rejected e \<longrightarrow> pronounce enc text language speed w = (Rejected e, w2))
       \<and> (visited = Pending \<longrightarrow> pronounce enc text language speed w = (Pending, w2))
       \<and> (visited = Resolved () \<longrightarrow>
            guid_reads (trace (snd (pronounce enc text language speed w)))
              = guid_reads (trace w) + 2
            \<and> (\<forall>error2 w3.
                  pronounceAttempt enc text language w2 = (Rejected error2, w3)
                  \<longrightarrow> pronounce enc text language speed w
                       = (Rejected (ApiError (js ''API_ERR'') 0
                            (js ''Pronounce failed, please contact developers to report problem.'')
                            (Inr error2)), w3))
            \<and> (\<forall>w3. pronounceAttempt enc text language w2 = (Resolved (), w3)
                  \<longrightarrow> pronounce enc text language speed w = (Resolved (), w3)))
       \<and> qtk (snd (pronounce enc text language speed w)) = qtk w
       \<and> qtv (snd (pronounce enc text language speed w)) = qtv w
       \<and> cookies_getAll_script (snd (pronounce enc text language speed w))
           = cookies_getAll_script w"
proof -
  have g1: "guid_reads (trace w1) = guid_reads (trace w) + 1"
    using pronounceAttempt_guid_reads [of enc "text" language "stopPronounce w"] assms(1)
    by (simp add: stopPronounce_frame)
  have g2: "guid_reads (trace w2) = guid_reads (trace w) + 1"
    using requestHomePage_trace(2) [of w1] assms(2) g1 by simp
  have unfold: "pronounce enc text language speed w =
      (case visited of
         Resolved u \<Rightarrow> pronounceOnce enc text language (Suc 0) w2
       | Rejected e \<Rightarrow> (Rejected e, w2)
       | Pending \<Rightarrow> (Pending, w2))"
    using assms(2)
    by (simp add: pronounce_def pronounceOnce_first [OF assms(1)] split: promise.split)
  have g3: "visited = Resolved () \<Longrightarrow>
      guid_reads (trace (snd (pronounce enc text language speed w))) = guid_reads (trace w) + 2"
    using pronounceAttempt_guid_reads [of enc "text" language w2] g2
    by (simp add: unfold pronounceOnce_last_world)
  have again: "\<And>attempt w3. visited = Resolved () \<Longrightarrow>
      pronounceAttempt enc text language w2 = (attempt, w3) \<Longrightarrow>
      pronounce enc text language speed w =
        (case attempt of
           Rejected error2 \<Rightarrow>
             (Rejected (ApiError (js ''API_ERR'') 0
                (js ''Pronounce failed, please contact developers to report problem.'')
                (Inr error2)), w3)
         | Resolved u \<Rightarrow> (Resolved u, w3)
         | Pending \<Rightarrow> (Pending, w3))"
    by (simp add: unfold pronounceOnce_last)
  from g2 g3 again pronounce_keeps_tokens [of enc "text" language speed w]
  show ?thesis
    by (auto simp add: unfold)
qed

theorem pronounce_retries_once_after_page_visit_witness:
  "fst (pronounceAttempt plain_encode (js ''hao'') (js ''zh-CN'') (stopPronounce guidless_world))
     = Rejected (Message (js ''Tencent guid not found!''))
   \<and> fst (pronounce plain_encode (js ''hao'') (js ''zh-CN'') (js ''fast'') guidless_world)
       = Rejected (ApiError (js ''API_ERR'') 0
           (js ''Pronounce failed, please contact developers to report problem.'')
           (Inr (Message (js ''Tencent guid not found!''))))
   \<and> guid_reads (trace (snd (pronounce plain_encode (js ''hao'') (js ''zh-CN'') (js ''fast'')
         guidless_world))) = 2"
proof -
  define w1 where
    "w1 = snd (pronounceAttempt plain_encode (js ''hao'') (js ''zh-CN'') (stopPronounce guidless_world))"
  define visited where "visited = fst (requestHomePage w1)"
  define w2 where "w2 = snd (requestHomePage w1)"
  define w3 where "w3 = snd (pronounceAttempt plain_encode (js ''hao'') (js ''zh-CN'') w2)"
  have f: "fst (pronounceAttempt plain_encode (js ''hao'') (js ''zh-CN'')
                 (stopPronounce guidless_world))
             = Rejected (Message (js ''Tencent guid not found!''))"
    by (simp add: pronounceAttempt_def stopPronounce_def emit_def Let_def guidless_world_def
          loaded_world_def silent_world_def)
  then have a: "pronounceAttempt plain_encode (js ''hao'') (js ''zh-CN'')
                  (stopPronounce guidless_world)
                = (Rejected (Message (js ''Tencent guid not found!'')), w1)"
    by (simp add: w1_def prod_eq_iff)
  have v: "requestHomePage w1 = (visited, w2)"
    by (simp add: visited_def w2_def)
  have scripts:
    "tabs_script w1
       = \<lparr>created = Inr 7,
          deliveries = [Updated 7 Loading, Updated 3 Complete, Updated 7 Complete,
                        Removed 0 None]\<rparr> # []"
    "cookies_get_script w1 = [None]"
    by (simp_all add: w1_def pronounceAttempt_def stopPronounce_def emit_def Let_def
          guidless_world_def loaded_world_def silent_world_def)
  have r: "visited = Resolved ()"
    by (simp add: visited_def requestHomePage_loads [OF scripts(1)])
  have "cookies_get_script w2 = [None]"
    using requestHomePage_frame(5) [of w1] scripts(2) by (simp add: w2_def)
  then have "fst (pronounceAttempt plain_encode (js ''hao'') (js ''zh-CN'') w2)
               = Rejected (Message (js ''Tencent guid not found!''))"
    by (simp add: pronounceAttempt_def emit_def Let_def)
  then have a2: "pronounceAttempt plain_encode (js ''hao'') (js ''zh-CN'') w2
                   = (Rejected (Message (js ''Tencent guid not found!'')), w3)"
    by (simp add: w3_def prod_eq_iff)
  have t: "trace guidless_world = []"
    by (simp add: guidless_world_def loaded_world_def silent_world_def)
  note main = pronounce_retries_once_after_page_visit [OF a v, of "js ''fast''"]
  from main r a2
  have p: "fst (pronounce plain_encode (js ''hao'') (js ''zh-CN'') (js ''fast'') guidless_world)
             = Rejected (ApiError (js ''API_ERR'') 0
                 (js ''Pronounce failed, please contact developers to report problem.'')
                 (Inr (Message (js ''Tencent guid not found!''))))"
    by simp
  from main r t
  have g: "guid_reads (trace (snd (pronounce plain_encode (js ''hao'') (js ''zh-CN'')
             (js ''fast'') guidless_world))) = 2"
    by simp
  from f p g show ?thesis by simp
qed

text \<open>
  In \<open>guidless_world\<close> both attempts fail. In between the adapter visits the provider's
  page, but it never asks for the cookies of the tokens: \<open>qtk\<close> stays as it was, although
  \<open>updateTokens\<close> would have found a new value. In \<open>guidless_blocked_world\<close> the page cannot
  be visited: \<open>pronounce\<close> makes one attempt only, and rejects with the browser's message
  instead of the structured error.
\<close>

theorem pronounce_no_token_refresh_counterexample:
  "fst (pronounceAttempt plain_encode (js ''hao'') (js ''zh-CN'') (stopPronounce guidless_world))
     = Rejected (Message (js ''Tencent guid not found!''))
   \<and> CookiesGetAll BASE_URL
       \<notin> set (trace (snd (pronounce plain_encode (js ''hao'') (js ''zh-CN'') (js ''fast'')
               guidless_world)))
   \<and> qtk (snd (pronounce plain_encode (js ''hao'') (js ''zh-CN'') (js ''fast'') guidless_world))
       = js ''k0''
   \<and> qtk (snd (updateTokens guidless_world)) = js ''k1''
   \<and> fst (pronounce plain_encode (js ''hao'') (js ''zh-CN'') (js ''fast'') guidless_blocked_world)
       = Rejected (Message (js ''No current window''))
   \<and> guid_reads (trace (snd (pronounce plain_encode (js ''hao'') (js ''zh-CN'') (js ''fast'')
         guidless_blocked_world))) = 1"
proof (intro conjI)
  show "fst (pronounceAttempt plain_encode (js ''hao'') (js ''zh-CN'')
              (stopPronounce guidless_world))
          = Rejected (Message (js ''Tencent guid not found!''))"
    by (simp add: pronounceAttempt_def stopPronounce_def emit_def Let_def guidless_world_def
          loaded_world_def silent_world_def)
  show "CookiesGetAll BASE_URL
       \<notin> set (trace (snd (pronounce plain_encode (js ''hao'') (js ''zh-CN'') (js ''fast'')
               guidless_world)))"
    by (simp add: pronounce_def pronounceOnce.simps pronounceAttempt_def requestHomePage_def
          stopPronounce_def emit_def Let_def MAX_RETRY_def guidless_world_def loaded_world_def
          silent_world_def)
  show "qtk (snd (pronounce plain_encode (js ''hao'') (js ''zh-CN'') (js ''fast'')
               guidless_world)) = js ''k0''"
    by (simp add: pronounce_keeps_tokens guidless_world_def loaded_world_def silent_world_def)
  show "qtk (snd (updateTokens guidless_world)) = js ''k1''"
    by (simp add: updateTokens_def requestHomePage_def emit_def Let_def guidless_world_def
          loaded_world_def silent_world_def fresh_cookies_def js_simps)
  show "fst (pronounce plain_encode (js ''hao'') (js ''zh-CN'') (js ''fast'')
              guidless_blocked_world)
          = Rejected (Message (js ''No current window''))"
    by (simp add: pronounce_def pronounceOnce.simps pronounceAttempt_def requestHomePage_def
          stopPronounce_def emit_def Let_def MAX_RETRY_def guidless_blocked_world_def
          silent_world_def)
  show "guid_reads (trace (snd (pronounce plain_encode (js ''hao'') (js ''zh-CN'') (js ''fast'')
         guidless_blocked_world))) = 1"
    by (simp add: pronounce_def pronounceOnce.simps pronounceAttempt_def requestHomePage_def
          stopPronounce_def emit_def Let_def MAX_RETRY_def guidless_blocked_world_def
          silent_world_def)
qed


end
